theory Spec2Isabelle
  imports Main "HOL-Library.AList"
begin

section \<open>The code writer\<close>

text \<open>
  \<^verbatim>\<open>CodeWriter\<close> wraps the output stream. The stream is modelled by the text written to
  it so far; \<^verbatim>\<open>line_cleared\<close> and \<^verbatim>\<open>block_cleared\<close> are the two fields of the class.
\<close>

record CodeWriter =
  out :: string
  line_cleared :: bool
  block_cleared :: int

definition newline :: string where
  "newline = [CHR 0x0A]"

definition CodeWriter_init :: "string \<Rightarrow> CodeWriter" where
  "CodeWriter_init stream = \<lparr>out = stream, line_cleared = True, block_cleared = 2\<rparr>"

definition CodeWriter_write :: "string \<Rightarrow> CodeWriter \<Rightarrow> CodeWriter" where
  "CodeWriter_write content w = w\<lparr>out := out w @ content, line_cleared := False, block_cleared := 0\<rparr>"

definition clear_line :: "CodeWriter \<Rightarrow> CodeWriter" where
  "clear_line w =
     (if \<not> line_cleared w then w\<lparr>out := out w @ newline, line_cleared := True\<rparr> else w)"

text \<open>The \<^verbatim>\<open>while\<close> loop of \<^verbatim>\<open>clear_block\<close>.\<close>

function clear_block_loop :: "int \<Rightarrow> CodeWriter \<Rightarrow> CodeWriter" where
  "clear_block_loop blank_lines w =
     (if block_cleared w < blank_lines
      then clear_block_loop blank_lines
             (w\<lparr>out := out w @ newline, block_cleared := block_cleared w + 1\<rparr>)
      else w)"
  by pat_completeness auto
termination
  by (relation "measure (\<lambda>(blank_lines, w). nat (blank_lines - block_cleared w))") auto

definition clear_block :: "int \<Rightarrow> CodeWriter \<Rightarrow> CodeWriter" where
  "clear_block blank_lines w = clear_block_loop blank_lines (clear_line w)"

section \<open>Errors and model nodes\<close>

text \<open>
  Every exception the generator can raise is a value. \<^verbatim>\<open>Exception msg\<close> is the plain
  \<^verbatim>\<open>Exception\<close> the handlers raise themselves; the others are raised by the Python
  runtime (a missing dictionary key, an exhausted iterator, a missing attribute, an
  unbound name, an index out of range, a value that cannot be subscripted or iterated,
  unbounded recursion).
\<close>

datatype error =
    KeyError string
  | StopIteration
  | AttributeError string
  | NameError string
  | IndexError
  | TypeError string
  | RecursionError
  | Exception string

text \<open>
  The instances of the subclasses of \<^verbatim>\<open>Context\<close> are mutable and shared (a class is
  reached from its module, from its constructor and from the symbol tables), so they live
  in a store and are denoted by references. A value passed as \<^verbatim>\<open>context\<close> or stored as
  \<^verbatim>\<open>parent\<close> is \<^verbatim>\<open>None\<close>, such a reference, or an expression object under construction
  (\<^verbatim>\<open>handle_binary_operator\<close> and \<^verbatim>\<open>handle_conditional_operator\<close> pass the operation they
  are building), which has no symbol table and no methods of a scope.
\<close>

type_synonym ref = nat

datatype ctx = CNone | CObj ref | CExpr

text \<open>
  The model nodes. \<^verbatim>\<open>Parameter\<close>, \<^verbatim>\<open>Variable\<close>, \<^verbatim>\<open>Attribute\<close> and the statement and
  expression objects are never modified once the handler that creates them has returned,
  so they are values. An absent operand is the \<^verbatim>\<open>None\<close> that \<^verbatim>\<open>handle\<close> returns for a node
  it skips. \<^verbatim>\<open>BinaryOperation\<close> and \<^verbatim>\<open>ConditionalOperation\<close> define no \<^verbatim>\<open>__init__\<close>: their
  instances carry the attributes the handler assigns, which are \<^verbatim>\<open>lvalue\<close>, \<^verbatim>\<open>op\<close>,
  \<^verbatim>\<open>rvalue\<close> for the first and \<^verbatim>\<open>true_value\<close>, \<^verbatim>\<open>condition\<close>, \<^verbatim>\<open>false_result\<close> for the
  second. The \<^verbatim>\<open>ctype\<close> and \<^verbatim>\<open>default\<close> of a \<^verbatim>\<open>Parameter\<close> are always \<^verbatim>\<open>None\<close>.
\<close>

datatype mnode =
    Obj ref
  | Parameter ctx string
  | Variable ctx string "mnode option"
  | Attribute ctx string "mnode option"
  | Return "mnode option"
  | Reference string
  | SelfReference
  | AttributeReference "mnode option" string
  | Literal string
  | BinaryOperation "mnode option" string "mnode option"
  | ConditionalOperation "mnode option" "mnode option" "mnode option"

section \<open>The scope model\<close>

text \<open>
  The scope classes of the fragment: \<^verbatim>\<open>Module\<close>, \<^verbatim>\<open>Class\<close> and \<^verbatim>\<open>Constructor\<close>. One
  record holds the fields of all three; \<^verbatim>\<open>py_class\<close> says which class the object is
  an instance of, and a method or field the class does not have is an
  \<^verbatim>\<open>AttributeError\<close> where the code reaches for it. The ordered dictionaries are
  association lists updated in place (\<^const>\<open>AList.update\<close> keeps the position of a key
  that is already there and appends a new one).
\<close>

datatype pyclass = Module | Class | Constructor

record scope =
  py_class :: pyclass
  parent :: ctx
  name :: "string option"
  names :: "(string \<times> mnode) list"
  declarations :: "(string option \<times> mnode) list"
  imports' :: "string set"
  submodules :: "(string \<times> ref) list"
  superclass :: "string option"
  constructor :: "ref option"
  destructor :: "ref option"
  attributes :: "(string \<times> mnode) list"
  methods :: "(string \<times> ref) list"
  classes :: "(string \<times> ref) list"
  parameters :: "mnode list"
  statements :: "mnode list option"

type_synonym heap = "scope list"

text \<open>
  A computation that can both modify the store and raise: the store comes back in either
  case, since what was modified before an exception stays modified when the exception is
  caught further up.
\<close>

type_synonym 'a res = "(error + 'a) \<times> heap"

definition new_scope :: "pyclass \<Rightarrow> ctx \<Rightarrow> string option \<Rightarrow> scope" where
  "new_scope c p n =
     \<lparr>py_class = c, parent = p, name = n, names = [], declarations = [], imports' = {},
      submodules = [], superclass = None, constructor = None, destructor = None,
      attributes = [], methods = [], classes = [], parameters = [], statements = None\<rparr>"

text \<open>
  \<^verbatim>\<open>Declaration.__init__\<close>: the new object \<open>self\<close> is entered in the symbol table of its
  parent when its name and its parent are both true values (a name that is not \<^verbatim>\<open>None\<close>
  and not empty, a parent that is not \<^verbatim>\<open>None\<close>).
\<close>

definition Declaration_init :: "ctx \<Rightarrow> string option \<Rightarrow> mnode \<Rightarrow> heap \<Rightarrow> error + heap" where
  "Declaration_init parent' name' self h =
     (case name' of
        None \<Rightarrow> Inr h
      | Some n \<Rightarrow>
          if n = [] then Inr h
          else (case parent' of
                  CNone \<Rightarrow> Inr h
                | CExpr \<Rightarrow> Inl (AttributeError ''names'')
                | CObj p \<Rightarrow> Inr (h[p := (h ! p)\<lparr>names := AList.update n self (names (h ! p))\<rparr>])))"

text \<open>
  \<^verbatim>\<open>Context.__init__\<close>: the object is allocated at the end of the store, after
  \<^verbatim>\<open>Declaration.__init__\<close> has run, with an empty symbol table.
\<close>

definition Context_init :: "pyclass \<Rightarrow> ctx \<Rightarrow> string option \<Rightarrow> heap \<Rightarrow> error + (ref \<times> heap)" where
  "Context_init c parent' name' h =
     (case Declaration_init parent' name' (Obj (length h)) h of
        Inl e \<Rightarrow> Inl e
      | Inr h' \<Rightarrow> Inr (length h, h' @ [new_scope c parent' name']))"


definition Class_init :: "ctx \<Rightarrow> string \<Rightarrow> heap \<Rightarrow> error + (ref \<times> heap)" where
  "Class_init parent' name' h = Context_init Class parent' (Some name') h"

definition Constructor_init :: "ctx \<Rightarrow> heap \<Rightarrow> error + (ref \<times> heap)" where
  "Constructor_init klass h = Context_init Constructor klass None h"

definition Parameter_init :: "ctx \<Rightarrow> string \<Rightarrow> heap \<Rightarrow> error + (mnode \<times> heap)" where
  "Parameter_init function name' h =
     (case Declaration_init function (Some name') (Parameter function name') h of
        Inl e \<Rightarrow> Inl e
      | Inr h' \<Rightarrow> Inr (Parameter function name', h'))"

definition Variable_init :: "ctx \<Rightarrow> string \<Rightarrow> mnode option \<Rightarrow> heap \<Rightarrow> error + (mnode \<times> heap)" where
  "Variable_init parent' name' value' h =
     (case Declaration_init parent' (Some name') (Variable parent' name' value') h of
        Inl e \<Rightarrow> Inl e
      | Inr h' \<Rightarrow> Inr (Variable parent' name' value', h'))"

definition Attribute_init :: "ctx \<Rightarrow> string \<Rightarrow> mnode option \<Rightarrow> heap \<Rightarrow> error + (mnode \<times> heap)" where
  "Attribute_init klass name' value' h =
     (case Declaration_init klass (Some name') (Attribute klass name' value') h of
        Inl e \<Rightarrow> Inl e
      | Inr h' \<Rightarrow> Inr (Attribute klass name' value', h'))"

text \<open>
  \<^verbatim>\<open>Context.__getitem__\<close> recurses along the \<^verbatim>\<open>parent\<close> links. The recursion is bounded
  by the number of objects in the store: a chain that does not end within that many steps
  is cyclic, where Python gives up with \<^verbatim>\<open>RecursionError\<close>.
\<close>

fun getitem_rec :: "nat \<Rightarrow> heap \<Rightarrow> ref \<Rightarrow> string \<Rightarrow> error + mnode" where
  "getitem_rec 0 h self name' = Inl RecursionError"
| "getitem_rec (Suc depth) h self name' =
     (case map_of (names (h ! self)) name' of
        Some d \<Rightarrow> Inr d
      | None \<Rightarrow>
          (case parent (h ! self) of
             CObj p \<Rightarrow> getitem_rec depth h p name'
           | CExpr \<Rightarrow> Inl (AttributeError ''__getitem__'')
           | CNone \<Rightarrow> Inl (KeyError name')))"

definition Context_getitem :: "heap \<Rightarrow> ref \<Rightarrow> string \<Rightarrow> error + mnode" where
  "Context_getitem h self name' = getitem_rec (length h) h self name'"

text \<open>\<^verbatim>\<open>context[name]\<close> for any value used as a context.\<close>

definition subscript :: "heap \<Rightarrow> ctx \<Rightarrow> string \<Rightarrow> error + mnode" where
  "subscript h context name' =
     (case context of
        CObj c \<Rightarrow> Context_getitem h c name'
      | _ \<Rightarrow> Inl (TypeError ''not subscriptable''))"

subsection \<open>Attaching a node to its scope\<close>

text \<open>\<^verbatim>\<open>add_imports\<close>: a no-op in every class that defines it; \<^verbatim>\<open>Parameter\<close> does not.\<close>

definition add_imports :: "mnode \<Rightarrow> error + unit" where
  "add_imports decl =
     (case decl of Parameter _ _ \<Rightarrow> Inl (AttributeError ''add_imports'') | _ \<Rightarrow> Inr ())"

text \<open>The \<^verbatim>\<open>name\<close> attribute of a node.\<close>

definition name_of :: "heap \<Rightarrow> mnode \<Rightarrow> error + string option" where
  "name_of h decl =
     (case decl of
        Obj r \<Rightarrow> Inr (name (h ! r))
      | Parameter _ n \<Rightarrow> Inr (Some n)
      | Variable _ n _ \<Rightarrow> Inr (Some n)
      | Attribute _ n _ \<Rightarrow> Inr (Some n)
      | _ \<Rightarrow> Inl (AttributeError ''name''))"

text \<open>
  \<^verbatim>\<open>Class.add_constructor\<close>, on the class at \<open>self\<close>. \<^verbatim>\<open>Class.add_declaration\<close> calls
  \<^verbatim>\<open>append\<close> on an ordered dictionary, which has none. \<^verbatim>\<open>Module.add_declaration\<close> is
  reached from the \<^verbatim>\<open>add_to_context\<close> of a class or of a variable only, whose
  \<^verbatim>\<open>add_imports\<close> does nothing, so that it stores the declaration or fails as a whole.
\<close>

definition add_constructor :: "ref \<Rightarrow> ref \<Rightarrow> heap \<Rightarrow> error + heap" where
  "add_constructor self method h =
     (case constructor (h ! self) of
        Some c \<Rightarrow>
          (case statements (h ! c) of
             None \<Rightarrow> Inr (h[self := (h ! self)\<lparr>constructor := Some method\<rparr>])
           | Some _ \<Rightarrow> Inl (Exception ''Cannot handle multiple constructors''))
      | None \<Rightarrow> Inr (h[self := (h ! self)\<lparr>constructor := Some method\<rparr>]))"

definition add_declaration :: "ctx \<Rightarrow> mnode \<Rightarrow> heap \<Rightarrow> error + heap" where
  "add_declaration context decl h =
     (case context of
        CObj m \<Rightarrow>
          (case py_class (h ! m) of
             Module \<Rightarrow>
               (case name_of h decl of
                  Inl e \<Rightarrow> Inl e
                | Inr n \<Rightarrow>
                    (case add_imports decl of
                       Inl e \<Rightarrow> Inl e
                     | Inr _ \<Rightarrow>
                         Inr (h[m := (h ! m)\<lparr>declarations :=
                                  AList.update n decl (declarations (h ! m))\<rparr>])))
           | Class \<Rightarrow> Inl (AttributeError ''append'')
           | Constructor \<Rightarrow> Inl (AttributeError ''add_declaration''))
      | _ \<Rightarrow> Inl (AttributeError ''add_declaration''))"

definition add_parameter :: "ctx \<Rightarrow> mnode \<Rightarrow> heap \<Rightarrow> error + heap" where
  "add_parameter context parameter h =
     (case context of
        CObj c \<Rightarrow>
          (case py_class (h ! c) of
             Constructor \<Rightarrow> Inr (h[c := (h ! c)\<lparr>parameters := parameters (h ! c) @ [parameter]\<rparr>])
           | _ \<Rightarrow> Inl (AttributeError ''add_parameter''))
      | _ \<Rightarrow> Inl (AttributeError ''add_parameter''))"

text \<open>
  \<^verbatim>\<open>add_attribute\<close>: a class stores the attribute under its name, a constructor hands it
  to its parent. The depth of that delegation is bounded like the lookup's.
\<close>

fun add_attribute_rec :: "nat \<Rightarrow> ctx \<Rightarrow> string \<Rightarrow> mnode \<Rightarrow> heap \<Rightarrow> error + heap" where
  "add_attribute_rec 0 context n attr h = Inl RecursionError"
| "add_attribute_rec (Suc depth) context n attr h =
     (case context of
        CObj c \<Rightarrow>
          (case py_class (h ! c) of
             Class \<Rightarrow> Inr (h[c := (h ! c)\<lparr>attributes := AList.update n attr (attributes (h ! c))\<rparr>])
           | Constructor \<Rightarrow> add_attribute_rec depth (parent (h ! c)) n attr h
           | Module \<Rightarrow> Inl (AttributeError ''add_attribute''))
      | _ \<Rightarrow> Inl (AttributeError ''add_attribute''))"

definition add_attribute :: "ctx \<Rightarrow> string \<Rightarrow> mnode \<Rightarrow> heap \<Rightarrow> error + heap" where
  "add_attribute context n attr h = add_attribute_rec (length h) context n attr h"

text \<open>
  \<^verbatim>\<open>add_statement\<close> exists on a constructor only. The statement is stored before its
  \<^verbatim>\<open>add_imports\<close> is called, so it stays stored when that call fails.
\<close>

definition add_statement :: "ctx \<Rightarrow> mnode \<Rightarrow> heap \<Rightarrow> unit res" where
  "add_statement context statement h =
     (case context of
        CObj c \<Rightarrow>
          (case py_class (h ! c) of
             Constructor \<Rightarrow>
               (let h' = h[c := (h ! c)\<lparr>statements :=
                           (case statements (h ! c) of
                              None \<Rightarrow> Some [statement]
                            | Some ss \<Rightarrow> if ss = [] then Some [statement]
                                         else Some (ss @ [statement]))\<rparr>]
                in (add_imports statement, h'))
           | _ \<Rightarrow> (Inl (AttributeError ''add_statement''), h))
      | _ \<Rightarrow> (Inl (AttributeError ''add_statement''), h))"

text \<open>
  \<^verbatim>\<open>decl.add_to_context(context)\<close>, dispatched on the class of \<open>decl\<close>.
  \<^verbatim>\<open>Module.add_submodule\<close> reads \<^verbatim>\<open>self.submodules[module.name, module]\<close>, a key that is
  never there.
\<close>

definition add_to_context :: "mnode \<Rightarrow> ctx \<Rightarrow> heap \<Rightarrow> error + heap" where
  "add_to_context decl context h =
     (case decl of
        Obj r \<Rightarrow>
          (case py_class (h ! r) of
             Module \<Rightarrow>
               (case context of
                  CObj m \<Rightarrow>
                    (case py_class (h ! m) of
                       Module \<Rightarrow> Inl (KeyError (case name (h ! r) of Some n \<Rightarrow> n | None \<Rightarrow> ''None''))
                     | _ \<Rightarrow> Inl (AttributeError ''add_submodule''))
                | _ \<Rightarrow> Inl (AttributeError ''add_submodule''))
           | Class \<Rightarrow> add_declaration context decl h
           | Constructor \<Rightarrow>
               (case parent (h ! r) of
                  CObj k \<Rightarrow>
                    (case py_class (h ! k) of
                       Class \<Rightarrow> add_constructor k r h
                     | _ \<Rightarrow> Inl (AttributeError ''add_constructor''))
                | _ \<Rightarrow> Inl (AttributeError ''add_constructor'')))
      | Parameter _ _ \<Rightarrow> add_parameter context decl h
      | Variable _ _ _ \<Rightarrow> add_declaration context decl h
      | Attribute _ n _ \<Rightarrow> add_attribute context n decl h
      | _ \<Rightarrow> Inl (AttributeError ''add_to_context''))"


section \<open>The syntax tree\<close>

datatype kind =
    TRANSLATION_UNIT | CLASS_DECL | FIELD_DECL | VAR_DECL | PARM_DECL | CONSTRUCTOR
  | TYPE_REF | MEMBER_REF | DECL_REF_EXPR | MEMBER_REF_EXPR | STRING_LITERAL
  | BINARY_OPERATOR | CONDITIONAL_OPERATOR | CXX_THIS_EXPR | UNEXPOSED_EXPR
  | COMPOUND_STMT | RETURN_STMT | IF_STMT

datatype TypeKind = RECORD | INT_TYPE

datatype node =
  Node (kind: kind) (spelling: string) (type_kind: TypeKind) (get_tokens: "string list")
       (in_filenames: bool) (get_children: "node list")

definition is_space :: "char \<Rightarrow> bool" where
  "is_space c = (c \<in> set [CHR '' '', CHR 0x09, CHR 0x0A, CHR 0x0B, CHR 0x0C, CHR 0x0D,
                           CHR 0x1C, CHR 0x1D, CHR 0x1E, CHR 0x1F])"

fun split_from :: "string \<Rightarrow> string \<Rightarrow> string list" where
  "split_from word [] = (if word = [] then [] else [word])"
| "split_from word (c # cs) =
     (if is_space c then (if word = [] then split_from [] cs else word # split_from [] cs)
      else split_from (word @ [c]) cs)"

definition str_split :: "string \<Rightarrow> string list" where
  "str_split s = split_from [] s"

definition handle_parm_decl :: "node \<Rightarrow> ctx \<Rightarrow> heap \<Rightarrow> mnode option res" where
  "handle_parm_decl node function h =
     (case Parameter_init function (spelling node) h of
        Inl e \<Rightarrow> (Inl e, h)
      | Inr (p, h') \<Rightarrow> (Inr (Some p), h'))"

definition handle_type_ref :: "node \<Rightarrow> ctx \<Rightarrow> heap \<Rightarrow> mnode option res" where
  "handle_type_ref node context h =
     (case str_split (spelling node) of
        _ # w # _ \<Rightarrow> (Inr (Some (Reference w)), h)
      | _ \<Rightarrow> (Inl IndexError, h))"

definition handle_decl_ref_expr :: "node \<Rightarrow> ctx \<Rightarrow> heap \<Rightarrow> mnode option res" where
  "handle_decl_ref_expr node statement h = (Inr (Some (Reference (spelling node))), h)"

definition handle_string_literal :: "node \<Rightarrow> ctx \<Rightarrow> heap \<Rightarrow> mnode option res" where
  "handle_string_literal node context h =
     (case get_tokens node of
        [] \<Rightarrow> (Inl StopIteration, h)
      | t # _ \<Rightarrow> (Inr (Some (Literal t)), h))"

definition handle_cxx_this_expr :: "node \<Rightarrow> ctx \<Rightarrow> heap \<Rightarrow> mnode option res" where
  "handle_cxx_this_expr node context h = (Inr (Some SelfReference), h)"

text \<open>\<^verbatim>\<open>context[decl.ref].constructor\<close> in \<^verbatim>\<open>handle_constructor\<close>.\<close>

definition lookup_constructor :: "ctx \<Rightarrow> mnode option \<Rightarrow> heap \<Rightarrow> error + ref option" where
  "lookup_constructor context decl h =
     (case decl of
        Some (Reference r) \<Rightarrow>
          (case subscript h context r of
             Inl e \<Rightarrow> Inl e
           | Inr (Obj k) \<Rightarrow>
               (case py_class (h ! k) of
                  Class \<Rightarrow> Inr (constructor (h ! k))
                | _ \<Rightarrow> Inl (AttributeError ''constructor''))
           | Inr _ \<Rightarrow> Inl (AttributeError ''constructor''))
      | _ \<Rightarrow> Inl (AttributeError ''ref''))"

definition isinstance_Class :: "heap \<Rightarrow> ctx \<Rightarrow> bool" where
  "isinstance_Class h context = (case context of CObj c \<Rightarrow> py_class (h ! c) = Class | _ \<Rightarrow> False)"

definition ctx_of :: "ref option \<Rightarrow> ctx" where
  "ctx_of r = (case r of None \<Rightarrow> CNone | Some c \<Rightarrow> CObj c)"


text \<open>
  The handlers that recurse take \<open>self_handle\<close>, the \<^verbatim>\<open>self.handle\<close> they call on the
  children of their node. An iterator over the children is the list of those not yet
  consumed: \<^verbatim>\<open>next\<close> on the empty list is \<^verbatim>\<open>StopIteration\<close>.
\<close>

type_synonym handler = "node \<Rightarrow> ctx \<Rightarrow> heap \<Rightarrow> mnode option res"

fun translation_unit_loop :: "handler \<Rightarrow> node list \<Rightarrow> ctx \<Rightarrow> heap \<Rightarrow> unit res" where
  "translation_unit_loop self_handle [] tu h = (Inr (), h)"
| "translation_unit_loop self_handle (child # rest) tu h =
     (case self_handle child tu h of
        (Inl e, h1) \<Rightarrow> (Inl e, h1)
      | (Inr None, h1) \<Rightarrow> translation_unit_loop self_handle rest tu h1
      | (Inr (Some decl), h1) \<Rightarrow>
          (case add_to_context decl tu h1 of
             Inl e \<Rightarrow> (Inl e, h1)
           | Inr h2 \<Rightarrow> translation_unit_loop self_handle rest tu h2))"

definition handle_translation_unit :: "handler \<Rightarrow> node \<Rightarrow> ctx \<Rightarrow> heap \<Rightarrow> mnode option res" where
  "handle_translation_unit self_handle node tu h =
     (case translation_unit_loop self_handle (get_children node) tu h of
        (Inl e, h') \<Rightarrow> (Inl e, h')
      | (Inr _, h') \<Rightarrow> (Inr None, h'))"

fun class_decl_loop :: "handler \<Rightarrow> node list \<Rightarrow> ref \<Rightarrow> heap \<Rightarrow> unit res" where
  "class_decl_loop self_handle [] klass h = (Inr (), h)"
| "class_decl_loop self_handle (child # rest) klass h =
     (case self_handle child (CObj klass) h of
        (Inl e, h1) \<Rightarrow> (Inl e, h1)
      | (Inr None, h1) \<Rightarrow> class_decl_loop self_handle rest klass h1
      | (Inr (Some decl), h1) \<Rightarrow>
          (case add_to_context decl (CObj klass) h1 of
             Inl e \<Rightarrow> (Inl e, h1)
           | Inr h2 \<Rightarrow> class_decl_loop self_handle rest klass h2))"

definition handle_class_decl :: "handler \<Rightarrow> node \<Rightarrow> ctx \<Rightarrow> heap \<Rightarrow> mnode option res" where
  "handle_class_decl self_handle node context h =
     (case Class_init context (spelling node) h of
        Inl e \<Rightarrow> (Inl e, h)
      | Inr (klass, h1) \<Rightarrow>
          (case class_decl_loop self_handle (get_children node) klass h1 of
             (Inl e, h2) \<Rightarrow> (Inl e, h2)
           | (Inr _, h2) \<Rightarrow> (Inr (Some (Obj klass)), h2)))"

text \<open>
  \<^verbatim>\<open>handle_field_decl\<close> catches \<^verbatim>\<open>StopIteration\<close>, also one that escapes from the child's
  handler; \<^verbatim>\<open>handle_var_decl\<close> catches everything.
\<close>

definition handle_field_decl :: "handler \<Rightarrow> node \<Rightarrow> ctx \<Rightarrow> heap \<Rightarrow> mnode option res" where
  "handle_field_decl self_handle node context h =
     (case get_children node of
        [] \<Rightarrow> (Inr None, h)
      | child # _ \<Rightarrow>
          (case self_handle child context h of
             (Inl e, h1) \<Rightarrow> if e = StopIteration then (Inr None, h1) else (Inl e, h1)
           | (Inr value', h1) \<Rightarrow>
               (case Attribute_init context (spelling node) value' h1 of
                  Inl e \<Rightarrow> (Inl e, h1)
                | Inr (a, h2) \<Rightarrow> (Inr (Some a), h2))))"

definition handle_var_decl :: "handler \<Rightarrow> node \<Rightarrow> ctx \<Rightarrow> heap \<Rightarrow> mnode option res" where
  "handle_var_decl self_handle node context h =
     (case (if type_kind node = RECORD
            then (case get_children node of [] \<Rightarrow> None | _ # rest \<Rightarrow> Some rest)
            else Some (get_children node)) of
        None \<Rightarrow> (Inr None, h)
      | Some [] \<Rightarrow> (Inr None, h)
      | Some (child # _) \<Rightarrow>
          (case self_handle child context h of
             (Inl e, h1) \<Rightarrow> (Inr None, h1)
           | (Inr value', h1) \<Rightarrow>
               (case Variable_init context (spelling node) value' h1 of
                  Inl e \<Rightarrow> (Inr None, h1)
                | Inr (v, h2) \<Rightarrow> (Inr (Some v), h2))))"

text \<open>
  The loop of \<^verbatim>\<open>handle_constructor\<close>; \<open>constructor'\<close> is the local variable
  \<^verbatim>\<open>constructor\<close>, which is \<^verbatim>\<open>None\<close> until the out-of-line definition has found its
  prototype. The loop returns its last value.
\<close>

fun constructor_loop ::
  "handler \<Rightarrow> node list \<Rightarrow> ctx \<Rightarrow> ref option \<Rightarrow> bool \<Rightarrow> heap \<Rightarrow> ref option res" where
  "constructor_loop self_handle [] context constructor' is_prototype h = (Inr constructor', h)"
| "constructor_loop self_handle (child # rest) context constructor' is_prototype h =
     (case self_handle child (ctx_of constructor') h of
        (Inl e, h1) \<Rightarrow> (Inl e, h1)
      | (Inr decl, h1) \<Rightarrow>
          (case constructor' of
             None \<Rightarrow>
               (case lookup_constructor context decl h1 of
                  Inl e \<Rightarrow> (Inl e, h1)
                | Inr c \<Rightarrow> constructor_loop self_handle rest context c is_prototype h1)
           | Some c \<Rightarrow>
               (case decl of
                  None \<Rightarrow> constructor_loop self_handle rest context constructor' is_prototype h1
                | Some d \<Rightarrow>
                    if is_prototype \<or> kind child \<noteq> PARM_DECL then
                      (case add_to_context d (CObj c) h1 of
                         Inl e \<Rightarrow> (Inl e, h1)
                       | Inr h2 \<Rightarrow>
                           constructor_loop self_handle rest context constructor' is_prototype h2)
                    else constructor_loop self_handle rest context constructor' is_prototype h1)))"

definition handle_constructor :: "handler \<Rightarrow> node \<Rightarrow> ctx \<Rightarrow> heap \<Rightarrow> mnode option res" where
  "handle_constructor self_handle node context h =
     (if isinstance_Class h context then
        (case Constructor_init context h of
           Inl e \<Rightarrow> (Inl e, h)
         | Inr (c, h1) \<Rightarrow>
             (case constructor_loop self_handle (get_children node) context (Some c) True h1 of
                (Inl e, h2) \<Rightarrow> (Inl e, h2)
              | (Inr c', h2) \<Rightarrow> (Inr (map_option Obj c'), h2)))
      else
        (case constructor_loop self_handle (get_children node) context None False h of
           (Inl e, h2) \<Rightarrow> (Inl e, h2)
         | (Inr _, h2) \<Rightarrow> (Inr None, h2)))"

text \<open>
  \<^verbatim>\<open>handle_member_ref\<close> names its iterator \<^verbatim>\<open>child\<close> and then asks \<^verbatim>\<open>children\<close>, a name
  that is bound nowhere, for the second child: once the first child is built, the handler
  raises \<^verbatim>\<open>NameError\<close>. \<^verbatim>\<open>handle_member_ref_expr\<close> binds \<^verbatim>\<open>children\<close>. In both the outer
  \<^verbatim>\<open>except StopIteration\<close> also catches a \<^verbatim>\<open>StopIteration\<close> that escapes from the child's
  handler.
\<close>

definition handle_member_ref :: "handler \<Rightarrow> node \<Rightarrow> ctx \<Rightarrow> heap \<Rightarrow> mnode option res" where
  "handle_member_ref self_handle node context h =
     (case get_children node of
        [] \<Rightarrow> (Inr (Some (AttributeReference (Some SelfReference) (spelling node))), h)
      | child # _ \<Rightarrow>
          (case self_handle child context h of
             (Inl e, h1) \<Rightarrow>
               if e = StopIteration
               then (Inr (Some (AttributeReference (Some SelfReference) (spelling node))), h1)
               else (Inl e, h1)
           | (Inr instance, h1) \<Rightarrow> (Inl (NameError ''children''), h1)))"

definition handle_unexposed_expr :: "handler \<Rightarrow> node \<Rightarrow> ctx \<Rightarrow> heap \<Rightarrow> mnode option res" where
  "handle_unexposed_expr self_handle node statement h =
     (case get_children node of
        [] \<Rightarrow> (Inl StopIteration, h)
      | first_child # rest \<Rightarrow>
          (case rest of
             [] \<Rightarrow> self_handle first_child statement h
           | _ # _ \<Rightarrow> (Inl (Exception ''Unexposed expression has multiple children.''), h)))"

definition handle_member_ref_expr :: "handler \<Rightarrow> node \<Rightarrow> ctx \<Rightarrow> heap \<Rightarrow> mnode option res" where
  "handle_member_ref_expr self_handle node context h =
     (case get_children node of
        [] \<Rightarrow> (Inr (Some (AttributeReference (Some SelfReference) (spelling node))), h)
      | first_child # children \<Rightarrow>
          (case self_handle first_child context h of
             (Inl e, h1) \<Rightarrow>
               if e = StopIteration
               then (Inr (Some (AttributeReference (Some SelfReference) (spelling node))), h1)
               else (Inl e, h1)
           | (Inr instance, h1) \<Rightarrow>
               (case children of
                  [] \<Rightarrow> (Inr (Some (AttributeReference instance (spelling node))), h1)
                | _ # _ \<Rightarrow>
                    (Inl (Exception ''Member reference expression has multiple children.''), h1))))"

text \<open>
  \<^verbatim>\<open>handle_binary_operator\<close>: the first \<^verbatim>\<open>try\<close> turns every \<^verbatim>\<open>StopIteration\<close> into the
  exception about two child nodes; \<^verbatim>\<open>list(lnode.get_tokens())[-1]\<close> is an \<^verbatim>\<open>IndexError\<close>
  when the left operand has no token.
\<close>

definition handle_binary_operator :: "handler \<Rightarrow> node \<Rightarrow> ctx \<Rightarrow> heap \<Rightarrow> mnode option res" where
  "handle_binary_operator self_handle node context h =
     (case get_children node of
        [] \<Rightarrow> (Inl (Exception ''Binary expression requires 2 child nodes.''), h)
      | lnode # children \<Rightarrow>
          (case self_handle lnode CExpr h of
             (Inl e, h1) \<Rightarrow>
               if e = StopIteration
               then (Inl (Exception ''Binary expression requires 2 child nodes.''), h1)
               else (Inl e, h1)
           | (Inr lvalue, h1) \<Rightarrow>
               if get_tokens lnode = [] then (Inl IndexError, h1)
               else
                 (case children of
                    [] \<Rightarrow> (Inl (Exception ''Binary expression requires 2 child nodes.''), h1)
                  | rnode # children' \<Rightarrow>
                      (case self_handle rnode CExpr h1 of
                         (Inl e, h2) \<Rightarrow>
                           if e = StopIteration
                           then (Inl (Exception ''Binary expression requires 2 child nodes.''), h2)
                           else (Inl e, h2)
                       | (Inr rvalue, h2) \<Rightarrow>
                           (case children' of
                              [] \<Rightarrow>
                                (Inr (Some (BinaryOperation lvalue (last (get_tokens lnode)) rvalue)),
                                 h2)
                            | _ # _ \<Rightarrow>
                                (Inl (Exception ''Binary expression has > 2 child nodes.''), h2))))))"

definition handle_conditional_operator :: "handler \<Rightarrow> node \<Rightarrow> ctx \<Rightarrow> heap \<Rightarrow> mnode option res" where
  "handle_conditional_operator self_handle node context h =
     (case get_children node of
        [] \<Rightarrow> (Inl StopIteration, h)
      | c1 # children \<Rightarrow>
          (case self_handle c1 CExpr h of
             (Inl e, h1) \<Rightarrow> (Inl e, h1)
           | (Inr true_value, h1) \<Rightarrow>
               (case children of
                  [] \<Rightarrow> (Inl StopIteration, h1)
                | c2 # children' \<Rightarrow>
                    (case self_handle c2 CExpr h1 of
                       (Inl e, h2) \<Rightarrow> (Inl e, h2)
                     | (Inr condition, h2) \<Rightarrow>
                         (case children' of
                            [] \<Rightarrow> (Inl StopIteration, h2)
                          | c3 # _ \<Rightarrow>
                              (case self_handle c3 CExpr h2 of
                                 (Inl e, h3) \<Rightarrow> (Inl e, h3)
                               | (Inr false_result, h3) \<Rightarrow>
                                   (Inr (Some (ConditionalOperation true_value condition
                                                 false_result)), h3)))))))"

fun compound_stmt_loop :: "handler \<Rightarrow> node list \<Rightarrow> ctx \<Rightarrow> heap \<Rightarrow> unit res" where
  "compound_stmt_loop self_handle [] context h = (Inr (), h)"
| "compound_stmt_loop self_handle (child # rest) context h =
     (case self_handle child context h of
        (Inl e, h1) \<Rightarrow> (Inl e, h1)
      | (Inr None, h1) \<Rightarrow> compound_stmt_loop self_handle rest context h1
      | (Inr (Some statement), h1) \<Rightarrow>
          (case add_statement context statement h1 of
             (Inl e, h2) \<Rightarrow> (Inl e, h2)
           | (Inr _, h2) \<Rightarrow> compound_stmt_loop self_handle rest context h2))"

definition handle_compound_stmt :: "handler \<Rightarrow> node \<Rightarrow> ctx \<Rightarrow> heap \<Rightarrow> mnode option res" where
  "handle_compound_stmt self_handle node context h =
     (case compound_stmt_loop self_handle (get_children node) context h of
        (Inl e, h') \<Rightarrow> (Inl e, h')
      | (Inr _, h') \<Rightarrow> (Inr None, h'))"

definition handle_return_stmt :: "handler \<Rightarrow> node \<Rightarrow> ctx \<Rightarrow> heap \<Rightarrow> mnode option res" where
  "handle_return_stmt self_handle node context h =
     (case get_children node of
        [] \<Rightarrow> (Inr (Some (Return None)), h)
      | child # _ \<Rightarrow>
          (case self_handle child context h of
             (Inl e, h1) \<Rightarrow> (Inr (Some (Return None)), h1)
           | (Inr value', h1) \<Rightarrow> (Inr (Some (Return value')), h1)))"

subsection \<open>The dispatcher\<close>

lemma translation_unit_loop_cong:
  "(\<And>child c s. child \<in> set cs \<Longrightarrow> f child c s = g child c s) \<Longrightarrow>
   translation_unit_loop f cs tu h = translation_unit_loop g cs tu h"
  by (induction cs arbitrary: h) (auto split: prod.splits sum.splits option.splits)

lemma class_decl_loop_cong:
  "(\<And>child c s. child \<in> set cs \<Longrightarrow> f child c s = g child c s) \<Longrightarrow>
   class_decl_loop f cs klass h = class_decl_loop g cs klass h"
  by (induction cs arbitrary: h) (auto split: prod.splits sum.splits option.splits)

lemma constructor_loop_cong:
  "(\<And>child c s. child \<in> set cs \<Longrightarrow> f child c s = g child c s) \<Longrightarrow>
   constructor_loop f cs context c' p h = constructor_loop g cs context c' p h"
  by (induction cs arbitrary: h c') (auto split: prod.splits sum.splits option.splits)

lemma compound_stmt_loop_cong:
  "(\<And>child c s. child \<in> set cs \<Longrightarrow> f child c s = g child c s) \<Longrightarrow>
   compound_stmt_loop f cs context h = compound_stmt_loop g cs context h"
  by (induction cs arbitrary: h) (auto split: prod.splits sum.splits option.splits)

lemma handle_translation_unit_cong [fundef_cong]:
  assumes "node = node'" "context = context'" "h = h'"
    and "\<And>child c s. child \<in> set (get_children node') \<Longrightarrow> f child c s = g child c s"
  shows "handle_translation_unit f node context h = handle_translation_unit g node' context' h'"
proof -
  have eq: "translation_unit_loop f (get_children node') = translation_unit_loop g (get_children node')"
    by (intro ext translation_unit_loop_cong) (rule assms(4))
  show ?thesis
    unfolding handle_translation_unit_def assms(1-3) eq ..
qed

lemma handle_class_decl_cong [fundef_cong]:
  assumes "node = node'" "context = context'" "h = h'"
    and "\<And>child c s. child \<in> set (get_children node') \<Longrightarrow> f child c s = g child c s"
  shows "handle_class_decl f node context h = handle_class_decl g node' context' h'"
proof -
  have eq: "class_decl_loop f (get_children node') = class_decl_loop g (get_children node')"
    by (intro ext class_decl_loop_cong) (rule assms(4))
  show ?thesis
    unfolding handle_class_decl_def assms(1-3) eq ..
qed

lemma handle_constructor_cong [fundef_cong]:
  assumes "node = node'" "context = context'" "h = h'"
    and "\<And>child c s. child \<in> set (get_children node') \<Longrightarrow> f child c s = g child c s"
  shows "handle_constructor f node context h = handle_constructor g node' context' h'"
proof -
  have eq: "constructor_loop f (get_children node') = constructor_loop g (get_children node')"
    by (intro ext constructor_loop_cong) (rule assms(4))
  show ?thesis
    unfolding handle_constructor_def assms(1-3) eq ..
qed

lemma handle_compound_stmt_cong [fundef_cong]:
  assumes "node = node'" "context = context'" "h = h'"
    and "\<And>child c s. child \<in> set (get_children node') \<Longrightarrow> f child c s = g child c s"
  shows "handle_compound_stmt f node context h = handle_compound_stmt g node' context' h'"
proof -
  have eq: "compound_stmt_loop f (get_children node') = compound_stmt_loop g (get_children node')"
    by (intro ext compound_stmt_loop_cong) (rule assms(4))
  show ?thesis
    unfolding handle_compound_stmt_def assms(1-3) eq ..
qed

lemma handle_field_decl_cong [fundef_cong]:
  "node = node' \<Longrightarrow> context = context' \<Longrightarrow> h = h' \<Longrightarrow>
   (\<And>child c s. child \<in> set (get_children node') \<Longrightarrow> f child c s = g child c s) \<Longrightarrow>
   handle_field_decl f node context h = handle_field_decl g node' context' h'"
  by (cases "get_children node'") (simp_all add: handle_field_decl_def)

lemma handle_var_decl_cong [fundef_cong]:
  "node = node' \<Longrightarrow> context = context' \<Longrightarrow> h = h' \<Longrightarrow>
   (\<And>child c s. child \<in> set (get_children node') \<Longrightarrow> f child c s = g child c s) \<Longrightarrow>
   handle_var_decl f node context h = handle_var_decl g node' context' h'"
  by (auto simp: handle_var_decl_def split: list.splits)

lemma handle_member_ref_cong [fundef_cong]:
  "node = node' \<Longrightarrow> context = context' \<Longrightarrow> h = h' \<Longrightarrow>
   (\<And>child c s. child \<in> set (get_children node') \<Longrightarrow> f child c s = g child c s) \<Longrightarrow>
   handle_member_ref f node context h = handle_member_ref g node' context' h'"
  by (cases "get_children node'") (simp_all add: handle_member_ref_def)

lemma handle_unexposed_expr_cong [fundef_cong]:
  "node = node' \<Longrightarrow> context = context' \<Longrightarrow> h = h' \<Longrightarrow>
   (\<And>child c s. child \<in> set (get_children node') \<Longrightarrow> f child c s = g child c s) \<Longrightarrow>
   handle_unexposed_expr f node context h = handle_unexposed_expr g node' context' h'"
  by (auto simp: handle_unexposed_expr_def split: list.splits)

lemma handle_member_ref_expr_cong [fundef_cong]:
  "node = node' \<Longrightarrow> context = context' \<Longrightarrow> h = h' \<Longrightarrow>
   (\<And>child c s. child \<in> set (get_children node') \<Longrightarrow> f child c s = g child c s) \<Longrightarrow>
   handle_member_ref_expr f node context h = handle_member_ref_expr g node' context' h'"
  by (cases "get_children node'") (simp_all add: handle_member_ref_expr_def)

lemma handle_binary_operator_cong [fundef_cong]:
  "node = node' \<Longrightarrow> context = context' \<Longrightarrow> h = h' \<Longrightarrow>
   (\<And>child c s. child \<in> set (get_children node') \<Longrightarrow> f child c s = g child c s) \<Longrightarrow>
   handle_binary_operator f node context h = handle_binary_operator g node' context' h'"
  by (auto simp: handle_binary_operator_def split: list.splits prod.splits sum.splits)

lemma handle_conditional_operator_cong [fundef_cong]:
  "node = node' \<Longrightarrow> context = context' \<Longrightarrow> h = h' \<Longrightarrow>
   (\<And>child c s. child \<in> set (get_children node') \<Longrightarrow> f child c s = g child c s) \<Longrightarrow>
   handle_conditional_operator f node context h = handle_conditional_operator g node' context' h'"
  by (auto simp: handle_conditional_operator_def split: list.splits prod.splits sum.splits)

lemma handle_return_stmt_cong [fundef_cong]:
  "node = node' \<Longrightarrow> context = context' \<Longrightarrow> h = h' \<Longrightarrow>
   (\<And>child c s. child \<in> set (get_children node') \<Longrightarrow> f child c s = g child c s) \<Longrightarrow>
   handle_return_stmt f node context h = handle_return_stmt g node' context' h'"
  by (cases "get_children node'") (simp_all add: handle_return_stmt_def)

lemma size_child: "child \<in> set (get_children node) \<Longrightarrow> size child < size node"
  by (cases node) (auto simp: less_Suc_eq_le dest: size_list_estimation')

text \<open>
  \<^verbatim>\<open>Generator.handle\<close>. The test on the file of the node depends on the node and on the
  registered file names only, which a traversal does not change: \<^const>\<open>in_filenames\<close> is
  its outcome. \<^verbatim>\<open>getattr\<close> finds no handler for a kind without a \<^verbatim>\<open>handle_\<close> method;
  the node is then ignored, like a node of another file.
\<close>

function handle :: "node \<Rightarrow> ctx \<Rightarrow> heap \<Rightarrow> mnode option res" where
  "handle node context h =
     (if in_filenames node then
        (case kind node of
           TRANSLATION_UNIT \<Rightarrow> handle_translation_unit handle node context h
         | CLASS_DECL \<Rightarrow> handle_class_decl handle node context h
         | FIELD_DECL \<Rightarrow> handle_field_decl handle node context h
         | VAR_DECL \<Rightarrow> handle_var_decl handle node context h
         | PARM_DECL \<Rightarrow> handle_parm_decl node context h
         | CONSTRUCTOR \<Rightarrow> handle_constructor handle node context h
         | TYPE_REF \<Rightarrow> handle_type_ref node context h
         | MEMBER_REF \<Rightarrow> handle_member_ref handle node context h
         | DECL_REF_EXPR \<Rightarrow> handle_decl_ref_expr node context h
         | MEMBER_REF_EXPR \<Rightarrow> handle_member_ref_expr handle node context h
         | STRING_LITERAL \<Rightarrow> handle_string_literal node context h
         | BINARY_OPERATOR \<Rightarrow> handle_binary_operator handle node context h
         | CONDITIONAL_OPERATOR \<Rightarrow> handle_conditional_operator handle node context h
         | CXX_THIS_EXPR \<Rightarrow> handle_cxx_this_expr node context h
         | UNEXPOSED_EXPR \<Rightarrow> handle_unexposed_expr handle node context h
         | COMPOUND_STMT \<Rightarrow> handle_compound_stmt handle node context h
         | RETURN_STMT \<Rightarrow> handle_return_stmt handle node context h
         | IF_STMT \<Rightarrow> (Inr None, h))
      else (Inr None, h))"
  by pat_completeness auto
termination
  by (relation "measure (\<lambda>(node, context, h). size node)") (auto simp: size_child)

declare handle.simps [simp del]


section \<open>Emission\<close>

text \<open>
  \<^verbatim>\<open>output\<close> on the statement and expression nodes. A statement may also be a reference
  to a scope object (a class declared in a body), which is emitted by the \<^verbatim>\<open>output\<close>
  method of its class; those methods enter as the parameter \<open>scope_output\<close>.
  \<^verbatim>\<open>Parameter\<close> has no \<^verbatim>\<open>output\<close> method, \<^verbatim>\<open>None\<close> has none either, and
  \<^verbatim>\<open>ConditionalOperation.output\<close> reads \<^verbatim>\<open>self.true_result\<close>, an attribute that no
  code assigns, right after it has written the opening parenthesis. An exception ends the
  emission; the text written before it is not part of the result.
\<close>

type_synonym emitter = "ref \<Rightarrow> CodeWriter \<Rightarrow> error + CodeWriter"

fun "output" :: "emitter \<Rightarrow> mnode \<Rightarrow> CodeWriter \<Rightarrow> error + CodeWriter" where
  "output scope_output (Obj r) w = scope_output r w"
| "output scope_output (Parameter p n) w = Inl (AttributeError ''output'')"
| "output scope_output (Variable p n v) w =
     (case v of
        Some e \<Rightarrow>
          (case output scope_output e (CodeWriter_write (n @ '' = '') w) of
             Inl x \<Rightarrow> Inl x
           | Inr w1 \<Rightarrow> Inr (clear_line w1))
      | None \<Rightarrow> Inr (clear_line (CodeWriter_write ''None'' (CodeWriter_write (n @ '' = '') w))))"
| "output scope_output (Attribute p n v) w =
     (case v of
        Some e \<Rightarrow>
          (case output scope_output e (CodeWriter_write (''self.'' @ n @ '' = '') w) of
             Inl x \<Rightarrow> Inl x
           | Inr w1 \<Rightarrow> Inr (clear_line w1))
      | None \<Rightarrow>
          Inr (clear_line (CodeWriter_write ''None'' (CodeWriter_write (''self.'' @ n @ '' = '') w))))"
| "output scope_output (Return v) w =
     (case v of
        Some e \<Rightarrow>
          (case output scope_output e (CodeWriter_write '' '' (CodeWriter_write ''return'' w)) of
             Inl x \<Rightarrow> Inl x
           | Inr w1 \<Rightarrow> Inr (clear_line w1))
      | None \<Rightarrow> Inr (CodeWriter_write ''return'' w))"
| "output scope_output (Reference r) w = Inr (CodeWriter_write r w)"
| "output scope_output SelfReference w = Inr (CodeWriter_write ''self'' w)"
| "output scope_output (AttributeReference instance attr) w =
     (case instance of
        None \<Rightarrow> Inl (AttributeError ''output'')
      | Some i \<Rightarrow>
          (case output scope_output i w of
             Inl x \<Rightarrow> Inl x
           | Inr w1 \<Rightarrow> Inr (CodeWriter_write (''.'' @ attr) w1)))"
| "output scope_output (Literal v) w = Inr (CodeWriter_write v w)"
| "output scope_output (BinaryOperation lvalue op rvalue) w =
     (case lvalue of
        None \<Rightarrow> Inl (AttributeError ''output'')
      | Some l \<Rightarrow>
          (case output scope_output l w of
             Inl x \<Rightarrow> Inl x
           | Inr w1 \<Rightarrow>
               (case rvalue of
                  None \<Rightarrow> Inl (AttributeError ''output'')
                | Some r \<Rightarrow> output scope_output r (CodeWriter_write ('' '' @ op @ '' '') w1))))"
| "output scope_output (ConditionalOperation true_value condition false_result) w =
     Inl (AttributeError ''true_result'')"

text \<open>\<^verbatim>\<open>'    ' * depth\<close>, \<^verbatim>\<open>', '.join\<close> and the decimal numeral of \<^verbatim>\<open>'arg%s' % (i + 1)\<close>.\<close>

definition indent :: "nat \<Rightarrow> string" where
  "indent depth = concat (replicate depth ''    '')"

fun join :: "string \<Rightarrow> string list \<Rightarrow> string" where
  "join sep [] = []"
| "join sep [x] = x"
| "join sep (x # y # ys) = x @ sep @ join sep (y # ys)"

fun str_nat :: "nat \<Rightarrow> string" where
  "str_nat n =
     (if n < 10 then [char_of (48 + n)] else str_nat (n div 10) @ [char_of (48 + n mod 10)])"

fun parameter_names :: "heap \<Rightarrow> nat \<Rightarrow> mnode list \<Rightarrow> error + string list" where
  "parameter_names h i [] = Inr []"
| "parameter_names h i (p # ps) =
     (case name_of h p of
        Inl e \<Rightarrow> Inl e
      | Inr n \<Rightarrow>
          (case parameter_names h (Suc i) ps of
             Inl e \<Rightarrow> Inl e
           | Inr ns \<Rightarrow>
               Inr ((case n of
                       None \<Rightarrow> ''arg'' @ str_nat (i + 1)
                     | Some s \<Rightarrow> if s = [] then ''arg'' @ str_nat (i + 1) else s) # ns)))"

text \<open>The two loops of \<^verbatim>\<open>Constructor.output\<close>, over the attributes of the class and over
  the statements of the constructor.\<close>

fun output_attributes ::
  "emitter \<Rightarrow> nat \<Rightarrow> (string \<times> mnode) list \<Rightarrow> CodeWriter \<Rightarrow> error + CodeWriter" where
  "output_attributes scope_output depth [] w = Inr w"
| "output_attributes scope_output depth ((name', attr) # rest) w =
     (case output scope_output attr (CodeWriter_write (indent (depth + 1)) w) of
        Inl e \<Rightarrow> Inl e
      | Inr w1 \<Rightarrow> output_attributes scope_output depth rest (clear_line w1))"

fun output_statements ::
  "emitter \<Rightarrow> nat \<Rightarrow> mnode list \<Rightarrow> CodeWriter \<Rightarrow> error + CodeWriter" where
  "output_statements scope_output depth [] w = Inr w"
| "output_statements scope_output depth (statement # rest) w =
     (case output scope_output statement (CodeWriter_write (indent (depth + 1)) w) of
        Inl e \<Rightarrow> Inl e
      | Inr w1 \<Rightarrow> output_statements scope_output depth rest (clear_line w1))"

text \<open>The first line that \<^verbatim>\<open>Constructor.output\<close> writes.\<close>

definition Constructor_header :: "heap \<Rightarrow> ref \<Rightarrow> nat \<Rightarrow> error + string" where
  "Constructor_header h self depth =
     (if parameters (h ! self) \<noteq> [] then
        (case parameter_names h 0 (parameters (h ! self)) of
           Inl e \<Rightarrow> Inl e
         | Inr ns \<Rightarrow> Inr (indent depth @ ''def __init__(self, '' @ join '', '' ns @ ''):'' @ newline))
      else Inr (indent depth @ ''def __init__(self):'' @ newline))"

text \<open>\<^verbatim>\<open>self.parent.attributes\<close>: only a class has attributes.\<close>

definition parent_attributes :: "heap \<Rightarrow> ref \<Rightarrow> error + (string \<times> mnode) list" where
  "parent_attributes h self =
     (case parent (h ! self) of
        CObj k \<Rightarrow>
          (case py_class (h ! k) of
             Class \<Rightarrow> Inr (attributes (h ! k))
           | _ \<Rightarrow> Inl (AttributeError ''attributes''))
      | _ \<Rightarrow> Inl (AttributeError ''attributes''))"

text \<open>
  \<^verbatim>\<open>Constructor.output\<close>. When the class has attributes and the constructor has no
  statement list, the second loop iterates over \<^verbatim>\<open>None\<close>.
\<close>

definition Constructor_output ::
  "emitter \<Rightarrow> heap \<Rightarrow> ref \<Rightarrow> nat \<Rightarrow> CodeWriter \<Rightarrow> error + CodeWriter" where
  "Constructor_output scope_output h self depth w =
     (case Constructor_header h self depth of
        Inl e \<Rightarrow> Inl e
      | Inr header \<Rightarrow>
          (case parent_attributes h self of
             Inl e \<Rightarrow> Inl e
           | Inr attrs \<Rightarrow>
               (case (if attrs \<noteq> [] \<or> (case statements (h ! self) of None \<Rightarrow> False | Some ss \<Rightarrow> ss \<noteq> [])
                      then
                        (case output_attributes scope_output depth attrs (CodeWriter_write header w) of
                           Inl e \<Rightarrow> Inl e
                         | Inr w1 \<Rightarrow>
                             (case statements (h ! self) of
                                None \<Rightarrow> Inl (TypeError ''NoneType object is not iterable'')
                              | Some ss \<Rightarrow> output_statements scope_output depth ss w1))
                      else Inr (CodeWriter_write (indent (depth + 1) @ ''pass'') (CodeWriter_write header w))) of
                  Inl e \<Rightarrow> Inl e
                | Inr w2 \<Rightarrow> Inr (clear_block 1 w2))))"

section \<open>Well-formed stores\<close>

text \<open>
  An object is allocated after its parent, which it receives as an argument of its
  \<^verbatim>\<open>__init__\<close>: in a store built by the generator every \<^verbatim>\<open>parent\<close> link leads to an
  older object.
\<close>

definition parents_earlier :: "heap \<Rightarrow> bool" where
  "parents_earlier h =
     list_all (\<lambda>(i, s). case parent s of CObj p \<Rightarrow> p < i | _ \<Rightarrow> True) (enumerate 0 h)"

text \<open>The scopes from \<open>c\<close> outwards along the \<^verbatim>\<open>parent\<close> links, \<open>c\<close> first.\<close>

fun enclosing :: "nat \<Rightarrow> heap \<Rightarrow> ref \<Rightarrow> ref list" where
  "enclosing 0 h c = []"
| "enclosing (Suc depth) h c =
     c # (case parent (h ! c) of CObj p \<Rightarrow> enclosing depth h p | _ \<Rightarrow> [])"

definition scope_chain :: "heap \<Rightarrow> ref \<Rightarrow> ref list" where
  "scope_chain h c = enclosing (length h) h c"


text \<open>A module, a class \<^verbatim>\<open>Foo\<close> in it and the constructor of the class, with one parameter.\<close>

definition example_scopes :: heap where
  "example_scopes =
     [(new_scope Module CNone (Some ''m''))\<lparr>names := [(''Foo'', Obj 1), (''g'', Variable (CObj 0) ''g'' None)]\<rparr>,
      (new_scope Class (CObj 0) (Some ''Foo''))\<lparr>constructor := Some 2\<rparr>,
      (new_scope Constructor (CObj 1) None)\<lparr>names := [(''a'', Parameter (CObj 2) ''a'')]\<rparr>]"



text \<open>
  The expression \<^verbatim>\<open>a + b\<close>: the token stream of the left operand, as the front end gives
  it, ends with the operator.
\<close>

definition sum_expr :: node where
  "sum_expr =
     Node BINARY_OPERATOR [] INT_TYPE [''a'', ''+'', ''b''] True
       [Node DECL_REF_EXPR ''a'' INT_TYPE [''a'', ''+''] True [],
        Node DECL_REF_EXPR ''b'' INT_TYPE [''b''] True []]"

section \<open>The text of a line\<close>

text \<open>
  What the emitter is to write for the nodes that stand for one line of output. An
  expression is a reference, \<^verbatim>\<open>self\<close>, a literal, an attribute reference or a binary
  operation whose operands are expressions; \<open>text_of\<close> is its text. A simple node is
  an expression, or a variable, an attribute or a \<^verbatim>\<open>return\<close> with no value or with an
  expression for its value; \<open>line_text\<close> is its line, terminator included.
\<close>

fun expression :: "mnode \<Rightarrow> bool" where
  "expression (Reference r) = True"
| "expression SelfReference = True"
| "expression (Literal v) = True"
| "expression (AttributeReference (Some i) a) = expression i"
| "expression (BinaryOperation (Some l) op (Some r)) = (expression l \<and> expression r)"
| "expression _ = False"

fun text_of :: "mnode \<Rightarrow> string" where
  "text_of (Reference r) = r"
| "text_of SelfReference = ''self''"
| "text_of (Literal v) = v"
| "text_of (AttributeReference (Some i) a) = text_of i @ ''.'' @ a"
| "text_of (BinaryOperation (Some l) op (Some r)) = text_of l @ '' '' @ op @ '' '' @ text_of r"
| "text_of _ = []"

definition initializer_text :: "mnode option \<Rightarrow> string" where
  "initializer_text v = (case v of None \<Rightarrow> ''None'' | Some e \<Rightarrow> text_of e)"

definition plain_option :: "mnode option \<Rightarrow> bool" where
  "plain_option v = (case v of None \<Rightarrow> True | Some e \<Rightarrow> expression e)"

fun simple :: "mnode \<Rightarrow> bool" where
  "simple (Variable p n v) = plain_option v"
| "simple (Attribute p n v) = plain_option v"
| "simple (Return v) = plain_option v"
| "simple e = expression e"

fun line_text :: "mnode \<Rightarrow> string" where
  "line_text (Variable p n v) = n @ '' = '' @ initializer_text v @ newline"
| "line_text (Attribute p n v) = ''self.'' @ n @ '' = '' @ initializer_text v @ newline"
| "line_text (Return v) =
     (case v of None \<Rightarrow> ''return'' | Some e \<Rightarrow> ''return '' @ text_of e) @ newline"
| "line_text e = text_of e @ newline"

text \<open>\<^verbatim>\<open>Class.add_attribute\<close> is only ever called by an \<^verbatim>\<open>Attribute\<close>, with itself.\<close>

definition is_Attribute :: "mnode \<Rightarrow> bool" where
  "is_Attribute a = (case a of Attribute _ _ _ \<Rightarrow> True | _ \<Rightarrow> False)"

text \<open>
  A class \<^verbatim>\<open>Foo\<close> with the attributes \<^verbatim>\<open>x\<close> (no initializer) and \<^verbatim>\<open>y\<close> (initialized to
  \<^verbatim>\<open>1\<close>), and its constructor with the parameter \<^verbatim>\<open>a\<close> and two statements.
\<close>

definition class_with_attributes :: heap where
  "class_with_attributes =
     [(new_scope Module CNone (Some ''m''))\<lparr>names := [(''Foo'', Obj 1)]\<rparr>,
      (new_scope Class (CObj 0) (Some ''Foo''))
        \<lparr>names := [(''x'', Attribute (CObj 1) ''x'' None),
                   (''y'', Attribute (CObj 1) ''y'' (Some (Literal ''1'')))],
         constructor := Some 2,
         attributes := [(''x'', Attribute (CObj 1) ''x'' None),
                        (''y'', Attribute (CObj 1) ''y'' (Some (Literal ''1'')))]\<rparr>,
      (new_scope Constructor (CObj 1) None)
        \<lparr>names := [(''a'', Parameter (CObj 2) ''a'')],
         parameters := [Parameter (CObj 2) ''a''],
         statements := Some [BinaryOperation (Some (AttributeReference (Some SelfReference) ''x''))
                               ''='' (Some (Reference ''a'')),
                             Return (Some (Reference ''a''))]\<rparr>]"

section \<open>Prototype and definition\<close>








section \<open>Properties of the code writer\<close>

declare clear_block_loop.simps [simp del]

lemma clear_block_loop_out:
  "out (clear_block_loop n w) = out w @ concat (replicate (nat (n - block_cleared w)) newline)"
proof (induction n w rule: clear_block_loop.induct)
  case (1 n w)
  show ?case
  proof (cases "block_cleared w < n")
    case True
    then have "nat (n - block_cleared w) = Suc (nat (n - (block_cleared w + 1)))"
      by simp
    with True 1 show ?thesis
      by (subst clear_block_loop.simps) simp
  next
    case False
    then show ?thesis
      by (subst clear_block_loop.simps) simp
  qed
qed

lemma clear_block_loop_line_cleared:
  "line_cleared (clear_block_loop n w) = line_cleared w"
proof (induction n w rule: clear_block_loop.induct)
  case (1 n w)
  then show ?case
    by (subst clear_block_loop.simps) simp
qed

lemma clear_block_loop_block_cleared:
  "block_cleared (clear_block_loop n w) = max n (block_cleared w)"
proof (induction n w rule: clear_block_loop.induct)
  case (1 n w)
  then show ?case
    by (subst clear_block_loop.simps) auto
qed

lemma clear_block_loop_done:
  "n \<le> block_cleared w \<Longrightarrow> clear_block_loop n w = w"
  by (subst clear_block_loop.simps) simp

lemma clear_block_idem: "clear_block n (clear_block n w) = clear_block n w"
proof -
  have l: "line_cleared (clear_block n w)"
    by (simp add: clear_block_def clear_block_loop_line_cleared clear_line_def)
  have b: "n \<le> block_cleared (clear_block n w)"
    by (simp add: clear_block_def clear_block_loop_block_cleared)
  from l have "clear_line (clear_block n w) = clear_block n w"
    by (simp add: clear_line_def)
  with b show ?thesis
    by (subst clear_block_def) (simp add: clear_block_loop_done)
qed

lemma clear_block_funpow: "(clear_block n ^^ Suc k) w = clear_block n w"
proof (induction k)
  case 0
  show ?case by simp
next
  case (Suc k)
  have "(clear_block n ^^ Suc (Suc k)) w = clear_block n ((clear_block n ^^ Suc k) w)"
    by simp
  also have "\<dots> = clear_block n (clear_block n w)"
    by (simp only: Suc.IH)
  finally show ?case
    by (simp only: clear_block_idem)
qed

lemma clear_block_after_write:
  "out (clear_block n (CodeWriter_write content w)) =
     out w @ content @ newline @ concat (replicate (nat n) newline)"
  by (simp add: clear_block_def clear_line_def CodeWriter_write_def clear_block_loop_out)

text \<open>
  C6. After a write of any content, one or more consecutive calls of \<^verbatim>\<open>clear_block\<close> with
  the same target \<open>n\<close> append to the stream the terminator of the current line and then
  exactly \<open>n\<close> blank lines in total (none when \<open>n\<close> is negative), however many calls
  there are; a repeated call changes nothing at all, in any state of the writer.
\<close>

theorem clear_block_idempotent:
  "out ((clear_block n ^^ Suc k) (CodeWriter_write content w)) =
      out w @ content @ newline @ concat (replicate (nat n) newline)
   \<and> out ((clear_block 2 ^^ Suc k) (CodeWriter_write content w)) =
      out w @ content @ newline @ newline @ newline
   \<and> clear_block n (clear_block n w') = clear_block n w'"
proof -
  have "out ((clear_block 2 ^^ Suc k) (CodeWriter_write content w)) =
      out w @ content @ newline @ concat (replicate (nat 2) newline)"
    by (simp only: clear_block_funpow clear_block_after_write)
  moreover have "concat (replicate (nat 2) newline) = newline @ newline"
    by (simp add: numeral_2_eq_2)
  ultimately show ?thesis
    by (simp only: clear_block_funpow clear_block_after_write clear_block_idem)
qed

section \<open>Name lookup and registration\<close>

lemma parents_earlierD:
  "parents_earlier h \<Longrightarrow> i < length h \<Longrightarrow> parent (h ! i) = CObj p \<Longrightarrow> p < i"
  by (force simp: parents_earlier_def list_all_iff in_set_enumerate_eq)

lemma getitem_rec_fuel:
  "parents_earlier h \<Longrightarrow> c < length h \<Longrightarrow> c < d \<Longrightarrow> c < d' \<Longrightarrow>
   getitem_rec d h c n = getitem_rec d' h c n"
proof (induction d arbitrary: c d')
  case 0
  then show ?case by simp
next
  case (Suc d)
  from Suc.prems obtain e where d': "d' = Suc e"
    by (cases d') auto
  show ?case
  proof (cases "parent (h ! c)")
    case (CObj p)
    with Suc.prems have "p < c"
      by (auto dest: parents_earlierD)
    with Suc.prems d' have "getitem_rec d h p n = getitem_rec e h p n"
      by (intro Suc.IH) auto
    with CObj d' show ?thesis
      by (simp split: option.splits)
  qed (simp_all add: d' split: option.splits)
qed

lemma getitem_rec_absent:
  "parents_earlier h \<Longrightarrow> c < length h \<Longrightarrow> c < d \<Longrightarrow>
   \<forall>c' \<in> set (enclosing d h c). map_of (names (h ! c')) n = None \<and> parent (h ! c') \<noteq> CExpr \<Longrightarrow>
   getitem_rec d h c n = Inl (KeyError n)"
proof (induction d arbitrary: c)
  case 0
  then show ?case by simp
next
  case (Suc d)
  show ?case
  proof (cases "parent (h ! c)")
    case (CObj p)
    with Suc.prems have "p < c"
      by (auto dest: parents_earlierD)
    with Suc.prems CObj have "getitem_rec d h p n = Inl (KeyError n)"
      by (intro Suc.IH) auto
    with CObj Suc.prems show ?thesis
      by simp
  qed (use Suc.prems in auto)
qed

text \<open>
  C7. In a store whose parent links lead to older objects, a lookup at the scope \<open>c\<close>
  returns the entry of the scope's own table when it has one; otherwise it is the lookup
  at the parent; and for a name that no scope of the chain from \<open>c\<close> to the root has,
  every parent on the chain being a scope or \<^verbatim>\<open>None\<close>, it is the \<^verbatim>\<open>KeyError\<close> for that
  name, raised at the root and passed through.
\<close>

theorem lookup_chain:
  assumes "parents_earlier h" and "c < length h"
  shows "(map_of (names (h ! c)) n = Some d \<longrightarrow> Context_getitem h c n = Inr d)
       \<and> (map_of (names (h ! c)) n = None \<and> parent (h ! c) = CObj p \<longrightarrow>
            Context_getitem h c n = Context_getitem h p n)
       \<and> (map_of (names (h ! c)) n = None \<and> parent (h ! c) = CNone \<longrightarrow>
            Context_getitem h c n = Inl (KeyError n))
       \<and> ((\<forall>c' \<in> set (scope_chain h c).
              map_of (names (h ! c')) n = None \<and> parent (h ! c') \<noteq> CExpr) \<longrightarrow>
            Context_getitem h c n = Inl (KeyError n))"
proof -
  from assms(2) obtain k where k: "length h = Suc k"
    by (cases "length h") auto
  have a: "map_of (names (h ! c)) n = Some d \<Longrightarrow> Context_getitem h c n = Inr d"
    by (simp add: Context_getitem_def k)
  have b: "Context_getitem h c n = Context_getitem h p n"
    if "map_of (names (h ! c)) n = None" "parent (h ! c) = CObj p"
  proof -
    from assms that have "p < c"
      by (auto dest: parents_earlierD)
    with assms k have "getitem_rec k h p n = getitem_rec (Suc k) h p n"
      by (intro getitem_rec_fuel) auto
    with that show ?thesis
      by (simp add: Context_getitem_def k)
  qed
  have c: "map_of (names (h ! c)) n = None \<Longrightarrow> parent (h ! c) = CNone \<Longrightarrow>
           Context_getitem h c n = Inl (KeyError n)"
    by (simp add: Context_getitem_def k)
  have d: "Context_getitem h c n = Inl (KeyError n)"
    if "\<forall>c' \<in> set (scope_chain h c). map_of (names (h ! c')) n = None \<and> parent (h ! c') \<noteq> CExpr"
    using assms that unfolding Context_getitem_def scope_chain_def
    by (intro getitem_rec_absent) auto
  from a b c d show ?thesis
    by blast
qed

theorem lookup_chain_witness:
  "parents_earlier example_scopes \<and> 2 < length example_scopes
   \<and> Context_getitem example_scopes 2 ''a'' = Inr (Parameter (CObj 2) ''a'')
   \<and> Context_getitem example_scopes 2 ''Foo'' = Context_getitem example_scopes 1 ''Foo''
   \<and> Context_getitem example_scopes 0 ''Foo'' = Inr (Obj 1)
   \<and> Context_getitem example_scopes 0 ''zz'' = Inl (KeyError ''zz'')
   \<and> Context_getitem example_scopes 2 ''zz'' = Inl (KeyError ''zz'')"
proof -
  have p: "parents_earlier example_scopes"
    by (simp add: parents_earlier_def example_scopes_def new_scope_def)
  have l: "2 < length example_scopes" "0 < length example_scopes"
    by (simp_all add: example_scopes_def)
  have n2: "map_of (names (example_scopes ! 2)) ''a'' = Some (Parameter (CObj 2) ''a'')"
    "map_of (names (example_scopes ! 2)) ''Foo'' = None"
    "parent (example_scopes ! 2) = CObj 1"
    by (simp_all add: example_scopes_def new_scope_def)
  have n0: "map_of (names (example_scopes ! 0)) ''Foo'' = Some (Obj 1)"
    "map_of (names (example_scopes ! 0)) ''zz'' = None"
    "parent (example_scopes ! 0) = CNone"
    by (simp_all add: example_scopes_def new_scope_def)
  have ch: "\<forall>c' \<in> set (scope_chain example_scopes 2).
              map_of (names (example_scopes ! c')) ''zz'' = None \<and> parent (example_scopes ! c') \<noteq> CExpr"
    by (simp add: scope_chain_def example_scopes_def new_scope_def numeral_3_eq_3 numeral_2_eq_2)
  have "Context_getitem example_scopes 2 ''a'' = Inr (Parameter (CObj 2) ''a'')"
    using lookup_chain [OF p l(1), of "''a''"] n2(1) by blast
  moreover have "Context_getitem example_scopes 2 ''Foo'' = Context_getitem example_scopes 1 ''Foo''"
    using lookup_chain [OF p l(1), of "''Foo''" _ 1] n2(2,3) by blast
  moreover have "Context_getitem example_scopes 0 ''Foo'' = Inr (Obj 1)"
    using lookup_chain [OF p l(2), of "''Foo''"] n0(1) by blast
  moreover have "Context_getitem example_scopes 0 ''zz'' = Inl (KeyError ''zz'')"
    using lookup_chain [OF p l(2), of "''zz''"] n0(2,3) by blast
  moreover have "Context_getitem example_scopes 2 ''zz'' = Inl (KeyError ''zz'')"
    using lookup_chain [OF p l(1), of "''zz''"] ch by blast
  ultimately show ?thesis
    using p l(1) by blast
qed


lemma parents_earlier_snoc:
  "parents_earlier h \<Longrightarrow> (case parent x of CObj p \<Rightarrow> p < length h | _ \<Rightarrow> True) \<Longrightarrow>
   parents_earlier (h @ [x])"
  by (simp add: parents_earlier_def enumerate_append_eq)







text \<open>
  The stores the generator builds are of this kind: an object constructed under a parent
  that is in the store keeps every parent link pointing to an older object.
\<close>

lemma parents_earlier_iff:
  "parents_earlier h \<longleftrightarrow> (\<forall>i<length h. \<forall>q. parent (h ! i) = CObj q \<longrightarrow> q < i)"
proof
  assume "parents_earlier h"
  then show "\<forall>i<length h. \<forall>q. parent (h ! i) = CObj q \<longrightarrow> q < i"
    by (blast dest: parents_earlierD)
next
  assume "\<forall>i<length h. \<forall>q. parent (h ! i) = CObj q \<longrightarrow> q < i"
  then show "parents_earlier h"
    by (auto simp: parents_earlier_def list_all_iff in_set_enumerate_eq split: ctx.splits)
qed

lemma parents_earlier_Context_init:
  assumes "parents_earlier h" and "Context_init cl parent' name' h = Inr (r, h')"
    and "case parent' of CObj p \<Rightarrow> p < length h | _ \<Rightarrow> True"
  shows "parents_earlier h'"
proof -
  from assms(2) obtain h1 where h1: "Declaration_init parent' name' (Obj (length h)) h = Inr h1"
    and h': "h' = h1 @ [new_scope cl parent' name']"
    by (auto simp: Context_init_def split: sum.splits)
  have upd: "parent ((xs[j := (xs ! j)\<lparr>names := t\<rparr>]) ! i) = parent (xs ! i)"
    for xs :: heap and i j t
    by (cases "j < length xs") (simp_all add: nth_list_update list_update_beyond)
  from h1 have "length h1 = length h" and "\<forall>i<length h. parent (h1 ! i) = parent (h ! i)"
    by (auto simp: Declaration_init_def upd split: option.splits if_splits ctx.splits)
  with assms(1) have "parents_earlier h1"
    by (simp add: parents_earlier_iff)
  then show ?thesis
    unfolding h' using assms(3) \<open>length h1 = length h\<close>
    by (intro parents_earlier_snoc) (simp_all add: new_scope_def split: ctx.splits)
qed



section \<open>Expressions and variable declarations\<close>

lemma handle_BINARY_OPERATOR:
  "in_filenames node \<Longrightarrow> kind node = BINARY_OPERATOR \<Longrightarrow>
   handle node context h = handle_binary_operator handle node context h"
  by (subst handle.simps) simp

lemma handle_VAR_DECL:
  "in_filenames node \<Longrightarrow> kind node = VAR_DECL \<Longrightarrow>
   handle node context h = handle_var_decl handle node context h"
  by (subst handle.simps) simp

lemma binary_operator_too_few:
  "length (get_children node) < 2 \<Longrightarrow>
   \<exists>e h'. handle_binary_operator f node context h = (Inl e, h')"
  by (cases "get_children node")
     (auto simp: handle_binary_operator_def split: prod.splits sum.splits list.splits)

lemma binary_operator_too_many:
  "2 < length (get_children node) \<Longrightarrow>
   \<exists>e h'. handle_binary_operator f node context h = (Inl e, h')"
  by (cases "get_children node")
     (auto simp: handle_binary_operator_def split: prod.splits sum.splits list.splits)

lemma binary_operator_two:
  "get_children node = [l, r] \<Longrightarrow> handle_binary_operator f node context h = (Inr v, h') \<Longrightarrow>
   \<exists>lv rv h1. f l CExpr h = (Inr lv, h1) \<and> f r CExpr h1 = (Inr rv, h') \<and> get_tokens l \<noteq> []
      \<and> v = Some (BinaryOperation lv (last (get_tokens l)) rv)"
  by (auto simp: handle_binary_operator_def split: prod.splits sum.splits if_splits)

lemma binary_operator_built:
  "get_children node = [l, r] \<Longrightarrow> f l CExpr h = (Inr lv, h1) \<Longrightarrow> get_tokens l \<noteq> [] \<Longrightarrow>
   f r CExpr h1 = (Inr rv, h2) \<Longrightarrow>
   handle_binary_operator f node context h =
     (Inr (Some (BinaryOperation lv (last (get_tokens l)) rv)), h2)"
  by (simp add: handle_binary_operator_def)

text \<open>
  C8. A binary-operator node with any number of children other than two makes the handler
  raise (with no child at all, the exception about two child nodes). With exactly two
  children, whenever the handler returns, it returns a \<^verbatim>\<open>BinaryOperation\<close> whose left and
  right operands are what \<^verbatim>\<open>handle\<close> built from the first and from the second child, in
  that order, and whose operator is the last token of the first child's token stream; the
  spelling of the operator node itself is not used. Conversely, when both children build
  and the first has a token, the handler returns that operation.
\<close>

theorem binary_operator_children:
  assumes "in_filenames node" and "kind node = BINARY_OPERATOR"
  shows "(length (get_children node) \<noteq> 2 \<longrightarrow> (\<exists>e h'. handle node context h = (Inl e, h')))
       \<and> (get_children node = [] \<longrightarrow>
            handle node context h = (Inl (Exception ''Binary expression requires 2 child nodes.''), h))
       \<and> (\<forall>l r v h'. get_children node = [l, r] \<and> handle node context h = (Inr v, h') \<longrightarrow>
            (\<exists>lv rv h1. handle l CExpr h = (Inr lv, h1) \<and> handle r CExpr h1 = (Inr rv, h')
               \<and> get_tokens l \<noteq> []
               \<and> v = Some (BinaryOperation lv (last (get_tokens l)) rv)))
       \<and> (\<forall>l r lv rv h1 h2. get_children node = [l, r] \<and> handle l CExpr h = (Inr lv, h1)
               \<and> get_tokens l \<noteq> [] \<and> handle r CExpr h1 = (Inr rv, h2) \<longrightarrow>
            handle node context h = (Inr (Some (BinaryOperation lv (last (get_tokens l)) rv)), h2))"
proof -
  note eq = handle_BINARY_OPERATOR [OF assms]
  have a: "\<exists>e h'. handle node context h = (Inl e, h')" if "length (get_children node) \<noteq> 2"
  proof (cases "length (get_children node) < 2")
    case True
    then show ?thesis
      unfolding eq by (rule binary_operator_too_few)
  next
    case False
    with that have "2 < length (get_children node)" by simp
    then show ?thesis
      unfolding eq by (rule binary_operator_too_many)
  qed
  have b: "handle node context h = (Inl (Exception ''Binary expression requires 2 child nodes.''), h)"
    if "get_children node = []"
    using that by (simp add: eq handle_binary_operator_def)
  have c: "\<exists>lv rv h1. handle l CExpr h = (Inr lv, h1) \<and> handle r CExpr h1 = (Inr rv, h')
               \<and> get_tokens l \<noteq> []
               \<and> v = Some (BinaryOperation lv (last (get_tokens l)) rv)"
    if "get_children node = [l, r] \<and> handle node context h = (Inr v, h')" for l r v h'
    using that unfolding eq by (elim conjE) (rule binary_operator_two)
  have d: "handle node context h = (Inr (Some (BinaryOperation lv (last (get_tokens l)) rv)), h2)"
    if "get_children node = [l, r] \<and> handle l CExpr h = (Inr lv, h1)
               \<and> get_tokens l \<noteq> [] \<and> handle r CExpr h1 = (Inr rv, h2)" for l r lv rv h1 h2
    using that unfolding eq by (elim conjE) (rule binary_operator_built)
  have A: "length (get_children node) \<noteq> 2 \<longrightarrow> (\<exists>e h'. handle node context h = (Inl e, h'))"
    using a by blast
  have B: "get_children node = [] \<longrightarrow>
            handle node context h = (Inl (Exception ''Binary expression requires 2 child nodes.''), h)"
    using b by blast
  have C: "\<forall>l r v h'. get_children node = [l, r] \<and> handle node context h = (Inr v, h') \<longrightarrow>
            (\<exists>lv rv h1. handle l CExpr h = (Inr lv, h1) \<and> handle r CExpr h1 = (Inr rv, h')
               \<and> get_tokens l \<noteq> []
               \<and> v = Some (BinaryOperation lv (last (get_tokens l)) rv))"
    using c by blast
  have D: "\<forall>l r lv rv h1 h2. get_children node = [l, r] \<and> handle l CExpr h = (Inr lv, h1)
               \<and> get_tokens l \<noteq> [] \<and> handle r CExpr h1 = (Inr rv, h2) \<longrightarrow>
            handle node context h = (Inr (Some (BinaryOperation lv (last (get_tokens l)) rv)), h2)"
    using d by blast
  from A B C D show ?thesis
    by (intro conjI)
qed

theorem binary_operator_children_witness:
  "in_filenames sum_expr \<and> kind sum_expr = BINARY_OPERATOR
   \<and> handle sum_expr CNone [] =
       (Inr (Some (BinaryOperation (Some (Reference ''a'')) ''+'' (Some (Reference ''b'')))), [])
   \<and> (\<exists>e h'. handle (Node BINARY_OPERATOR [] INT_TYPE [] True [sum_expr]) CNone [] = (Inl e, h'))
   \<and> handle (Node BINARY_OPERATOR [] INT_TYPE [] True []) CNone [] =
       (Inl (Exception ''Binary expression requires 2 child nodes.''), [])"
proof -
  let ?l = "Node DECL_REF_EXPR ''a'' INT_TYPE [''a'', ''+''] True []"
  let ?r = "Node DECL_REF_EXPR ''b'' INT_TYPE [''b''] True []"
  let ?one = "Node BINARY_OPERATOR [] INT_TYPE [] True [sum_expr]"
  let ?none = "Node BINARY_OPERATOR [] INT_TYPE [] True []"
  have k: "in_filenames sum_expr" "kind sum_expr = BINARY_OPERATOR"
    by (simp_all add: sum_expr_def)
  have cs: "get_children sum_expr = [?l, ?r]"
    by (simp add: sum_expr_def)
  have l: "handle ?l CExpr [] = (Inr (Some (Reference ''a'')), [])"
    and r: "handle ?r CExpr [] = (Inr (Some (Reference ''b'')), [])"
    by (simp_all add: handle.simps handle_decl_ref_expr_def)
  have t: "get_tokens ?l \<noteq> []" "last (get_tokens ?l) = ''+''"
    by simp_all
  note two = binary_operator_children [OF k, of CNone "[]", THEN conjunct2, THEN conjunct2,
      THEN conjunct2, rule_format, OF conjI [OF cs conjI [OF l conjI [OF t(1) r]]]]
  have "handle sum_expr CNone [] =
       (Inr (Some (BinaryOperation (Some (Reference ''a'')) (last (get_tokens ?l)) (Some (Reference ''b'')))), [])"
    by (rule two)
  then have "handle sum_expr CNone [] =
       (Inr (Some (BinaryOperation (Some (Reference ''a'')) ''+'' (Some (Reference ''b'')))), [])"
    by (simp only: t(2))
  moreover have "\<exists>e h'. handle ?one CNone [] = (Inl e, h')"
    by (rule binary_operator_children [of ?one CNone "[]", THEN conjunct1, rule_format]) simp_all
  moreover have "handle ?none CNone [] =
       (Inl (Exception ''Binary expression requires 2 child nodes.''), [])"
    by (rule binary_operator_children [of ?none CNone "[]", THEN conjunct2, THEN conjunct1,
          rule_format]) simp_all
  ultimately show ?thesis
    using k by (intro conjI)
qed

text \<open>
  C4. A \<^verbatim>\<open>MEMBER_REF\<close> node with exactly one child, here the reference \<^verbatim>\<open>obj\<close>: once the
  child is built, \<^verbatim>\<open>handle_member_ref\<close> evaluates the unbound name \<^verbatim>\<open>children\<close> and the
  traversal ends with a \<^verbatim>\<open>NameError\<close>, where \<^verbatim>\<open>obj.x\<close> was to be returned.
  (\<^verbatim>\<open>handle_member_ref_expr\<close>, which binds the name, does return it; see below.)
\<close>

theorem member_ref_one_child:
  "handle (Node MEMBER_REF ''x'' INT_TYPE [] True [Node DECL_REF_EXPR ''obj'' INT_TYPE [] True []])
     context h = (Inl (NameError ''children''), h)"
  by (simp add: handle.simps handle_member_ref_def handle_decl_ref_expr_def)

lemma member_ref_expr_cases:
  assumes "in_filenames node" and "kind node = MEMBER_REF_EXPR"
  shows "get_children node = [] \<Longrightarrow>
           handle node context h = (Inr (Some (AttributeReference (Some SelfReference) (spelling node))), h)"
    and "get_children node = [c] \<Longrightarrow> handle c context h = (Inr i, h1) \<Longrightarrow>
           handle node context h = (Inr (Some (AttributeReference i (spelling node))), h1)"
    and "get_children node = c # c' # cs \<Longrightarrow> handle c context h = (Inr i, h1) \<Longrightarrow>
           handle node context h
             = (Inl (Exception ''Member reference expression has multiple children.''), h1)"
  using assms by (subst handle.simps; simp add: handle_member_ref_expr_def)+

lemma member_ref_no_child:
  "in_filenames node \<Longrightarrow> kind node = MEMBER_REF \<Longrightarrow> get_children node = [] \<Longrightarrow>
   handle node context h = (Inr (Some (AttributeReference (Some SelfReference) (spelling node))), h)"
  by (subst handle.simps) (simp add: handle_member_ref_def)

lemma output_self_attribute:
  "output so (AttributeReference (Some SelfReference) n) w = Inr (CodeWriter_write (''.'' @ n) (CodeWriter_write ''self'' w))"
  by simp

text \<open>
  C5. A conditional operator over the references \<^verbatim>\<open>a\<close>, \<^verbatim>\<open>b\<close>, \<^verbatim>\<open>c\<close>: the handler
  stores the three built children, in order, as \<^verbatim>\<open>true_value\<close>, \<^verbatim>\<open>condition\<close> and
  \<^verbatim>\<open>false_result\<close>; emitting the node fails with an \<^verbatim>\<open>AttributeError\<close>, since
  \<^verbatim>\<open>output\<close> reads \<^verbatim>\<open>true_result\<close>. The text \<^verbatim>\<open>(a if b else c)\<close> is never produced.
\<close>

theorem conditional_operator_output:
  "handle (Node CONDITIONAL_OPERATOR [] INT_TYPE [] True
             [Node DECL_REF_EXPR ''a'' INT_TYPE [] True [],
              Node DECL_REF_EXPR ''b'' INT_TYPE [] True [],
              Node DECL_REF_EXPR ''c'' INT_TYPE [] True []]) context h
     = (Inr (Some (ConditionalOperation (Some (Reference ''a'')) (Some (Reference ''b''))
                     (Some (Reference ''c'')))), h)
   \<and> output so (ConditionalOperation (Some (Reference ''a'')) (Some (Reference ''b''))
                     (Some (Reference ''c''))) w
     = Inl (AttributeError ''true_result'')"
  by (simp add: handle.simps handle_conditional_operator_def handle_decl_ref_expr_def)

text \<open>
  C3 (as amended). A variable declaration with no initializer child (no child at all, or,
  for a variable of record type, nothing after the type reference) makes the handler
  return \<^verbatim>\<open>None\<close>: no \<^verbatim>\<open>Variable\<close> is built, nothing is raised and the store is unchanged.
  A \<^verbatim>\<open>Variable\<close> with an absent initializer is built when the dispatcher skips the
  initializer child, and emitting such a \<^verbatim>\<open>Variable\<close> writes \<^verbatim>\<open><name> = None\<close> and ends the
  line.
\<close>

theorem var_decl_without_initializer:
  assumes "in_filenames node" and "kind node = VAR_DECL"
  shows "(get_children node = [] \<longrightarrow> handle node context h = (Inr None, h))
       \<and> (type_kind node = RECORD \<and> length (get_children node) \<le> 1 \<longrightarrow>
            handle node context h = (Inr None, h))
       \<and> (\<forall>c cs h1. type_kind node \<noteq> RECORD \<and> get_children node = c # cs
              \<and> handle c (CObj m) h = (Inr None, h1) \<longrightarrow>
            fst (handle node (CObj m) h) = Inr (Some (Variable (CObj m) (spelling node) None)))
       \<and> output so (Variable p n None) w
           = Inr (w\<lparr>out := out w @ n @ '' = None'' @ newline, line_cleared := True,
                     block_cleared := 0\<rparr>)"
  unfolding handle_VAR_DECL [OF assms]
  by (auto simp: handle_var_decl_def Variable_init_def Declaration_init_def clear_line_def
      CodeWriter_write_def split: list.splits)

text \<open>
  The declaration \<^verbatim>\<open>int x;\<close> at module level: the handler returns \<^verbatim>\<open>None\<close>, not a
  \<^verbatim>\<open>Variable\<close>.
\<close>

theorem var_decl_no_variable:
  "handle (Node VAR_DECL ''x'' INT_TYPE [] True []) (CObj 0) [new_scope Module CNone (Some ''m'')]
     = (Inr None, [new_scope Module CNone (Some ''m'')])"
  by (simp add: handle.simps handle_var_decl_def)

theorem var_decl_without_initializer_witness:
  "in_filenames (Node VAR_DECL ''x'' INT_TYPE [] True []) \<and> kind (Node VAR_DECL ''x'' INT_TYPE [] True []) = VAR_DECL
   \<and> handle (Node VAR_DECL ''x'' INT_TYPE [] True []) CNone [] = (Inr None, [])
   \<and> handle (Node VAR_DECL ''x'' RECORD [] True [Node TYPE_REF ''class Foo'' INT_TYPE [] True []]) CNone []
       = (Inr None, [])
   \<and> fst (handle (Node VAR_DECL ''x'' INT_TYPE [] True [Node IF_STMT [] INT_TYPE [] True []])
            (CObj 0) [new_scope Module CNone (Some ''m'')])
       = Inr (Some (Variable (CObj 0) ''x'' None))
   \<and> out (projr (output (\<lambda>r. Inr) (Variable (CObj 0) ''x'' None) (CodeWriter_init []))) = ''x = None'' @ newline"
proof -
  have s: "handle (Node IF_STMT [] INT_TYPE [] True []) (CObj 0) [new_scope Module CNone (Some ''m'')]
      = (Inr None, [new_scope Module CNone (Some ''m'')])"
    by (simp add: handle.simps)
  have "handle (Node VAR_DECL ''x'' INT_TYPE [] True []) CNone [] = (Inr None, [])"
    using var_decl_without_initializer [of "Node VAR_DECL ''x'' INT_TYPE [] True []" CNone "[]"]
    by simp
  moreover have "handle (Node VAR_DECL ''x'' RECORD [] True [Node TYPE_REF ''class Foo'' INT_TYPE [] True []]) CNone []
       = (Inr None, [])"
    using var_decl_without_initializer
      [of "Node VAR_DECL ''x'' RECORD [] True [Node TYPE_REF ''class Foo'' INT_TYPE [] True []]" CNone "[]"]
    by simp
  moreover have "fst (handle (Node VAR_DECL ''x'' INT_TYPE [] True [Node IF_STMT [] INT_TYPE [] True []])
            (CObj 0) [new_scope Module CNone (Some ''m'')])
       = Inr (Some (Variable (CObj 0) ''x'' None))"
    using var_decl_without_initializer
      [of "Node VAR_DECL ''x'' INT_TYPE [] True [Node IF_STMT [] INT_TYPE [] True []]" _
          "[new_scope Module CNone (Some ''m'')]" 0] s
    by simp
  moreover have "out (projr (output (\<lambda>r. Inr) (Variable (CObj 0) ''x'' None) (CodeWriter_init []))) = ''x = None'' @ newline"
    using var_decl_without_initializer [of "Node VAR_DECL ''x'' INT_TYPE [] True []" CNone "[]" 0 "\<lambda>r. Inr" "CObj 0" "''x''" "CodeWriter_init []"]
    by (simp add: CodeWriter_init_def)
  ultimately show ?thesis
    by simp
qed

section \<open>Emission of a constructor\<close>

lemma output_expression:
  "expression e \<Longrightarrow>
   output so e w = Inr (w\<lparr>out := out w @ text_of e, line_cleared := False, block_cleared := 0\<rparr>)"
  by (induction e arbitrary: w rule: expression.induct) (simp_all add: CodeWriter_write_def)

lemma output_simple:
  assumes "simple v"
  shows "\<exists>w1. output so v (CodeWriter_write ind w) = Inr w1
           \<and> clear_line w1 = w\<lparr>out := out w @ ind @ line_text v, line_cleared := True,
                                  block_cleared := 0\<rparr>"
proof (cases "expression v")
  case True
  then have "line_text v = text_of v @ newline"
    by (cases v) simp_all
  with True show ?thesis
    by (simp add: output_expression CodeWriter_write_def clear_line_def)
next
  case False
  with assms show ?thesis
    by (cases v)
       (auto simp: output_expression CodeWriter_write_def clear_line_def plain_option_def
          initializer_text_def split: option.splits)
qed

lemma output_statements_simple:
  "\<forall>s\<in>set ss. simple s \<Longrightarrow> block_cleared w = 0 \<Longrightarrow>
   output_statements so depth ss w =
     Inr (w\<lparr>out := out w @ concat (map (\<lambda>s. indent (depth + 1) @ line_text s) ss),
              line_cleared := (ss \<noteq> [] \<or> line_cleared w), block_cleared := 0\<rparr>)"
proof (induction ss arbitrary: w)
  case Nil
  then show ?case by simp
next
  case (Cons s ss)
  from Cons.prems obtain w1 where
    w1: "output so s (CodeWriter_write (indent (depth + 1)) w) = Inr w1"
      "clear_line w1 = w\<lparr>out := out w @ indent (depth + 1) @ line_text s, line_cleared := True,
                            block_cleared := 0\<rparr>"
    using output_simple [of s so "indent (depth + 1)" w] by auto
  have "output_statements so depth ss (clear_line w1) =
     Inr ((clear_line w1)\<lparr>out := out (clear_line w1) @ concat (map (\<lambda>s. indent (depth + 1) @ line_text s) ss),
              line_cleared := (ss \<noteq> [] \<or> line_cleared (clear_line w1)), block_cleared := 0\<rparr>)"
    using Cons.prems by (intro Cons.IH) (simp_all add: w1(2))
  with w1 show ?case
    by simp
qed

lemma output_attributes_simple:
  "\<forall>(n, a)\<in>set attrs. simple a \<Longrightarrow> block_cleared w = 0 \<Longrightarrow>
   output_attributes so depth attrs w =
     Inr (w\<lparr>out := out w @ concat (map (\<lambda>(n, a). indent (depth + 1) @ line_text a) attrs),
              line_cleared := (attrs \<noteq> [] \<or> line_cleared w), block_cleared := 0\<rparr>)"
proof (induction attrs arbitrary: w)
  case Nil
  then show ?case by simp
next
  case (Cons na attrs)
  obtain n a where na: "na = (n, a)"
    by (cases na)
  from Cons.prems na obtain w1 where
    w1: "output so a (CodeWriter_write (indent (depth + 1)) w) = Inr w1"
      "clear_line w1 = w\<lparr>out := out w @ indent (depth + 1) @ line_text a, line_cleared := True,
                            block_cleared := 0\<rparr>"
    using output_simple [of a so "indent (depth + 1)" w] by auto
  have "output_attributes so depth attrs (clear_line w1) =
     Inr ((clear_line w1)\<lparr>out := out (clear_line w1) @ concat (map (\<lambda>(n, a). indent (depth + 1) @ line_text a) attrs),
              line_cleared := (attrs \<noteq> [] \<or> line_cleared (clear_line w1)), block_cleared := 0\<rparr>)"
    using Cons.prems by (intro Cons.IH) (simp_all add: w1(2))
  with w1 na show ?case
    by simp
qed

lemma clear_block_one:
  "line_cleared w \<Longrightarrow> block_cleared w = 0 \<Longrightarrow> out (clear_block 1 w) = out w @ newline"
  by (simp add: clear_block_def clear_line_def clear_block_loop_out)

text \<open>
  C9. For a constructor with at least one body statement, whose class has attributes with
  simple initializers and whose statements are simple, \<^verbatim>\<open>Constructor.output\<close> succeeds
  and appends, after the \<^verbatim>\<open>def __init__\<close> line: one line per attribute of the class, in
  the order of the attribute dictionary (the order of first registration), each at the
  body's indentation and reading \<^verbatim>\<open>self.<name> = <initializer>\<close>, with \<^verbatim>\<open>None\<close> for an
  absent initializer; then one line per statement, in order; then one blank line. Every
  attribute line thus precedes every statement.
\<close>

theorem constructor_output_attributes_first:
  assumes "parent (h ! c) = CObj k" and "py_class (h ! k) = Class"
    and "statements (h ! c) = Some ss" and "ss \<noteq> []"
    and "Constructor_header h c depth = Inr header"
    and "\<forall>(n, a)\<in>set (attributes (h ! k)). is_Attribute a \<and> simple a"
    and "\<forall>s\<in>set ss. simple s"
  shows "(\<exists>w'. Constructor_output so h c depth w = Inr w'
           \<and> out w' = out w @ header
               @ concat (map (\<lambda>(n, a). indent (depth + 1) @ line_text a) (attributes (h ! k)))
               @ concat (map (\<lambda>s. indent (depth + 1) @ line_text s) ss)
               @ newline)
       \<and> line_text (Attribute p n None) = ''self.'' @ n @ '' = None'' @ newline
       \<and> line_text (Attribute p n (Some e)) = ''self.'' @ n @ '' = '' @ text_of e @ newline"
proof -
  let ?w0 = "CodeWriter_write header w"
  let ?as = "attributes (h ! k)"
  let ?w1 = "?w0\<lparr>out := out ?w0 @ concat (map (\<lambda>(n, a). indent (depth + 1) @ line_text a) ?as),
              line_cleared := (?as \<noteq> [] \<or> line_cleared ?w0), block_cleared := 0\<rparr>"
  let ?w2 = "?w1\<lparr>out := out ?w1 @ concat (map (\<lambda>s. indent (depth + 1) @ line_text s) ss),
              line_cleared := (ss \<noteq> [] \<or> line_cleared ?w1), block_cleared := 0\<rparr>"
  have pa: "parent_attributes h c = Inr ?as"
    using assms(1,2) by (simp add: parent_attributes_def)
  have a: "output_attributes so depth ?as ?w0 = Inr ?w1"
  proof -
    from assms(6) have "\<forall>(n, a)\<in>set ?as. simple a"
      by auto
    then show ?thesis
      by (intro output_attributes_simple) (simp_all add: CodeWriter_write_def)
  qed
  have s: "output_statements so depth ss ?w1 = Inr ?w2"
    using assms(7) by (intro output_statements_simple) simp_all
  have "Constructor_output so h c depth w = Inr (clear_block 1 ?w2)"
    using assms(3,4,5) pa a s by (simp add: Constructor_output_def)
  moreover have "out (clear_block 1 ?w2) = out ?w2 @ newline"
    using assms(4) by (intro clear_block_one) simp_all
  ultimately have "\<exists>w'. Constructor_output so h c depth w = Inr w'
           \<and> out w' = out w @ header
               @ concat (map (\<lambda>(n, a). indent (depth + 1) @ line_text a) (attributes (h ! k)))
               @ concat (map (\<lambda>s. indent (depth + 1) @ line_text s) ss)
               @ newline"
    by (simp add: CodeWriter_write_def)
  moreover have "line_text (Attribute p n None) = ''self.'' @ n @ '' = None'' @ newline"
    by (simp add: initializer_text_def)
  moreover have "line_text (Attribute p n (Some e)) = ''self.'' @ n @ '' = '' @ text_of e @ newline"
    by (simp add: initializer_text_def)
  ultimately show ?thesis
    by (intro conjI)
qed

theorem constructor_output_attributes_first_witness:
  "(\<exists>w'. Constructor_output (\<lambda>r. Inr) class_with_attributes 2 1 (CodeWriter_init []) = Inr w'
      \<and> out w' = ''    def __init__(self, a):'' @ newline
                @ ''        self.x = None'' @ newline
                @ ''        self.y = 1'' @ newline
                @ ''        self.x = a'' @ newline
                @ ''        return a'' @ newline
                @ newline)"
proof -
  let ?ss = "[BinaryOperation (Some (AttributeReference (Some SelfReference) ''x''))
                               ''='' (Some (Reference ''a'')),
              Return (Some (Reference ''a''))]"
  have 1: "parent (class_with_attributes ! 2) = CObj 1" "py_class (class_with_attributes ! 1) = Class"
    "statements (class_with_attributes ! 2) = Some ?ss" "?ss \<noteq> []"
    by (simp_all add: class_with_attributes_def new_scope_def)
  have 2: "Constructor_header class_with_attributes 2 1 = Inr (''    def __init__(self, a):'' @ newline)"
    by (simp add: class_with_attributes_def new_scope_def Constructor_header_def name_of_def indent_def)
  have at: "attributes (class_with_attributes ! 1) = [(''x'', Attribute (CObj 1) ''x'' None),
                        (''y'', Attribute (CObj 1) ''y'' (Some (Literal ''1'')))]"
    by (simp add: class_with_attributes_def new_scope_def)
  have 3: "\<forall>(n, a)\<in>set (attributes (class_with_attributes ! 1)). is_Attribute a \<and> simple a"
    unfolding at by (simp add: is_Attribute_def plain_option_def)
  have 4: "\<forall>s\<in>set ?ss. simple s"
    by (simp add: plain_option_def)
  from constructor_output_attributes_first [OF 1 2 3 4, of "\<lambda>r. Inr" "CodeWriter_init []", unfolded at]
  show ?thesis
    by (simp add: CodeWriter_init_def indent_def initializer_text_def numeral_2_eq_2)
qed

section \<open>Merging a prototype with its out-of-line definition\<close>













end
